theory Spec2Isabelle
  imports Main "HOL-Library.Word"
begin

section \<open>Constant folding of built-in calls (gcc/fold-const-call.cc)\<close>

text \<open>
  A shallow embedding of the folding engine of \<^verbatim>\<open>fold-const-call.cc\<close>. A handler that
  returns \<^verbatim>\<open>true\<close> and stores \<^verbatim>\<open>*result\<close> is a function returning \<open>Some result\<close>;
  \<^verbatim>\<open>false\<close> (and \<^verbatim>\<open>NULL_TREE\<close>) is \<open>None\<close>.
\<close>

subsection \<open>Real constants (real.h)\<close>

datatype real_value_class = rvc_zero | rvc_normal | rvc_inf | rvc_nan

text \<open>
  Modelled from the spec: the declaration of \<^verbatim>\<open>struct real_value\<close> (real.h) is not part
  of the sources at hand. A real constant has a value class, a sign and, for normals, an
  exponent and a significand; a NaN carries the signalling bit and its payload in the
  significand. The value of a normal is \<open>sig * 2 ^ (uexp - SIGNIFICAND_BITS)\<close>, with
  the significand in [0.5, 1) as the comments of \<^verbatim>\<open>fold_const_logb\<close> say.
\<close>

record real_value =
  cl :: real_value_class
  sign :: bool
  signalling :: bool
  uexp :: int
  sig :: nat

definition SIGNIFICAND_BITS :: nat where
  "SIGNIFICAND_BITS = 192"

definition SIG_MSB :: nat where
  "SIG_MSB = 2 ^ (SIGNIFICAND_BITS - 1)"

definition dconst0 :: real_value where
  "dconst0 = \<lparr>cl = rvc_zero, sign = False, signalling = False, uexp = 0, sig = 0\<rparr>"

definition dconst1 :: real_value where
  "dconst1 = \<lparr>cl = rvc_normal, sign = False, signalling = False, uexp = 1, sig = SIG_MSB\<rparr>"

definition dconst2 :: real_value where
  "dconst2 = \<lparr>cl = rvc_normal, sign = False, signalling = False, uexp = 2, sig = SIG_MSB\<rparr>"

definition dconstm1 :: real_value where
  "dconstm1 = \<lparr>cl = rvc_normal, sign = True, signalling = False, uexp = 1, sig = SIG_MSB\<rparr>"

definition dconstinf :: real_value where
  "dconstinf = \<lparr>cl = rvc_inf, sign = False, signalling = False, uexp = 0, sig = 0\<rparr>"

text \<open>
  Modelled from the spec: the inspection helpers of real.h and real.cc
  (\<^verbatim>\<open>real_isfinite\<close>, \<^verbatim>\<open>real_isinf\<close>, \<^verbatim>\<open>real_isnan\<close>, \<^verbatim>\<open>real_issignaling_nan\<close>,
  \<^verbatim>\<open>real_isneg\<close>, \<^verbatim>\<open>real_copysign\<close>, \<^verbatim>\<open>real_identical\<close>) are not part of the sources at
  hand; each is the pure inspection of value class, sign and payload that its name says.
\<close>

definition real_isfinite :: "real_value \<Rightarrow> bool" where
  "real_isfinite r = (cl r \<noteq> rvc_nan \<and> cl r \<noteq> rvc_inf)"

definition real_isinf :: "real_value \<Rightarrow> bool" where
  "real_isinf r = (cl r = rvc_inf)"

definition real_isnan :: "real_value \<Rightarrow> bool" where
  "real_isnan r = (cl r = rvc_nan)"

definition real_issignaling_nan :: "real_value \<Rightarrow> bool" where
  "real_issignaling_nan r = (real_isnan r \<and> signalling r)"

abbreviation REAL_VALUE_ISSIGNALING_NAN :: "real_value \<Rightarrow> bool" where
  "REAL_VALUE_ISSIGNALING_NAN r \<equiv> real_issignaling_nan r"

definition real_isneg :: "real_value \<Rightarrow> bool" where
  "real_isneg r = sign r"

definition real_copysign :: "real_value \<Rightarrow> real_value \<Rightarrow> real_value" where
  "real_copysign r x = r\<lparr>sign := sign x\<rparr>"

text \<open>Bit-for-bit identity: only the fields that the value class uses are compared.\<close>

definition real_identical :: "real_value \<Rightarrow> real_value \<Rightarrow> bool" where
  "real_identical x y =
     (if cl x \<noteq> cl y then False
      else if sign x \<noteq> sign y then False
      else (case cl x of
              rvc_zero \<Rightarrow> True
            | rvc_inf \<Rightarrow> True
            | rvc_normal \<Rightarrow> uexp x = uexp y \<and> sig x = sig y
            | rvc_nan \<Rightarrow> signalling x = signalling y \<and> sig x = sig y))"

text \<open>
  Modelled from the spec: \<^verbatim>\<open>real_compare\<close> and \<^verbatim>\<open>real_equal\<close> (real.cc) are not part of
  the sources at hand. They order two binary constants by value: zeros of either sign are
  equal, an infinity lies beyond every finite value, normals of one sign are ordered by
  exponent and then significand, and a NaN is unordered (\<open>nan_result\<close> decides).
\<close>

definition do_compare :: "real_value \<Rightarrow> real_value \<Rightarrow> int \<Rightarrow> int" where
  "do_compare x y nan_result =
     (if cl x = rvc_nan \<or> cl y = rvc_nan then nan_result
      else if cl x = rvc_zero \<and> cl y = rvc_zero then 0
      else if cl x = rvc_inf \<and> cl y = rvc_inf then
        (if sign x = sign y then 0 else if sign x then - 1 else 1)
      else if cl x = rvc_inf \<or> cl y = rvc_zero then (if sign x then - 1 else 1)
      else if cl x = rvc_zero \<or> cl y = rvc_inf then (if sign y then 1 else - 1)
      else if sign x \<noteq> sign y then (if sign x then - 1 else 1)
      else (let ret = (if uexp x > uexp y then 1
                       else if uexp x < uexp y then - 1
                       else if sig x > sig y then 1
                       else if sig x < sig y then - 1 else (0::int))
            in if sign x then - ret else ret))"

datatype tree_code =
    LT_EXPR | LE_EXPR | GT_EXPR | GE_EXPR | EQ_EXPR | NE_EXPR
  | PLUS_EXPR | MINUS_EXPR | MULT_EXPR

fun real_compare :: "tree_code \<Rightarrow> real_value \<Rightarrow> real_value \<Rightarrow> bool" where
  "real_compare LT_EXPR x y = (do_compare x y 1 < 0)"
| "real_compare LE_EXPR x y = (do_compare x y 1 \<le> 0)"
| "real_compare GT_EXPR x y = (do_compare x y (- 1) > 0)"
| "real_compare GE_EXPR x y = (do_compare x y (- 1) \<ge> 0)"
| "real_compare EQ_EXPR x y = (do_compare x y (- 1) = 0)"
| "real_compare NE_EXPR x y = (do_compare x y (- 1) \<noteq> 0)"
| "real_compare code x y = False"

definition real_equal :: "real_value \<Rightarrow> real_value \<Rightarrow> bool" where
  "real_equal x y = (do_compare x y (- 1) = 0)"

subsection \<open>Formats and numeric-safety flags\<close>

text \<open>The fields of \<^verbatim>\<open>struct real_format\<close> that the folding code reads.\<close>

record real_format =
  fmt_b :: int
  fmt_p :: int
  fmt_pnan :: int
  fmt_emin :: int
  fmt_emax :: int
  fmt_round_towards_zero :: bool
  fmt_has_inf :: bool
  fmt_has_denorm :: bool

record flags =
  flag_rounding_math :: bool
  flag_trapping_math :: bool
  flag_errno_math :: bool
  flag_signaling_nans :: bool
  flag_unsafe_math_optimizations :: bool

subsection \<open>The arbitrary-precision backend (MPFR, MPC) and the arithmetic of real.cc\<close>

text \<open>
  An MPFR number is NaN, an infinity, a zero or a regular number (sign, mantissa,
  exponent). \<^verbatim>\<open>mpfr_number_p\<close> holds of zeros and regular numbers.
\<close>

datatype mpfr_t = MPFR_NAN | MPFR_INF bool | MPFR_ZERO bool | MPFR_REGULAR bool nat int

fun mpfr_number_p :: "mpfr_t \<Rightarrow> bool" where
  "mpfr_number_p MPFR_NAN = False"
| "mpfr_number_p (MPFR_INF s) = False"
| "mpfr_number_p (MPFR_ZERO s) = True"
| "mpfr_number_p (MPFR_REGULAR s m e) = True"

fun mpfr_zero_p :: "mpfr_t \<Rightarrow> bool" where
  "mpfr_zero_p (MPFR_ZERO s) = True"
| "mpfr_zero_p m = False"

datatype mpfr_rnd_t = MPFR_RNDN | MPFR_RNDZ

datatype mpc_rnd_t = MPC_RNDNN | MPC_RNDZZ

text \<open>
  The global MPFR exception state that the gate reads, and the outcome of one backend
  call made after \<^verbatim>\<open>mpfr_clear_flags\<close>: the value, the ternary return value (nonzero
  when inexact) and the flags raised by the call.
\<close>

record mpfr_flags =
  mpfr_overflow_p :: bool
  mpfr_underflow_p :: bool

record mpfr_result =
  res_value :: mpfr_t
  res_ternary :: int
  res_flags :: mpfr_flags

record mpc_result =
  cres_real :: mpfr_t
  cres_imag :: mpfr_t
  cres_ternary :: int
  cres_flags :: mpfr_flags

datatype mpfr_func =
    mpfr_sqrt | mpfr_cbrt | mpfr_asin | mpfr_acos | mpfr_atan | mpfr_asinh | mpfr_acosh
  | mpfr_atanh | mpfr_sin | mpfr_cos | mpfr_tan | mpfr_sinh | mpfr_cosh | mpfr_tanh
  | mpfr_acospi | mpfr_asinpi | mpfr_atanpi | mpfr_cospi | mpfr_sinpi | mpfr_tanpi
  | mpfr_erf | mpfr_erfc | mpfr_gamma | mpfr_exp | mpfr_exp2 | mpfr_exp10 | mpfr_expm1
  | mpfr_log | mpfr_log2 | mpfr_log10 | mpfr_log1p | mpfr_j0 | mpfr_j1 | mpfr_y0 | mpfr_y1
  | mpfr_remainder | mpfr_atan2 | mpfr_atan2pi | mpfr_dim | mpfr_fmod | mpfr_hypot
  | mpfr_min | mpfr_max | mpfr_pow

datatype mpc_func =
    mpc_cos | mpc_cosh | mpc_sin | mpc_sinh | mpc_tan | mpc_tanh | mpc_log | mpc_sqrt
  | mpc_asin | mpc_acos | mpc_atan | mpc_asinh | mpc_acosh | mpc_atanh | mpc_exp

text \<open>
  The collaborators that the folding code calls and that are not part of the sources at
  hand are parameters of the model: the backend's functions, the conversions of
  realmpfr.cc and the rounding and arithmetic routines of real.cc. Every theorem below
  holds for every such environment.
\<close>

record real_env =
  mpfr_call :: "mpfr_func \<Rightarrow> int \<Rightarrow> mpfr_rnd_t \<Rightarrow> mpfr_t list \<Rightarrow> mpfr_result"
  mpc_call :: "mpc_func \<Rightarrow> int \<Rightarrow> mpc_rnd_t \<Rightarrow> (mpfr_t \<times> mpfr_t) \<Rightarrow> mpc_result"
  mpfr_from_real :: "int \<Rightarrow> real_value \<Rightarrow> mpfr_t"
  real_from_mpfr :: "mpfr_t \<Rightarrow> real_format \<Rightarrow> real_value"
  real_convert :: "real_format \<Rightarrow> real_value \<Rightarrow> real_value"
  real_floor :: "real_format \<Rightarrow> real_value \<Rightarrow> real_value"
  real_ceil :: "real_format \<Rightarrow> real_value \<Rightarrow> real_value"
  real_trunc :: "real_format \<Rightarrow> real_value \<Rightarrow> real_value"
  real_round :: "real_format \<Rightarrow> real_value \<Rightarrow> real_value"
  real_roundeven :: "real_format \<Rightarrow> real_value \<Rightarrow> real_value"
  real_powi :: "real_format \<Rightarrow> real_value \<Rightarrow> int \<Rightarrow> real_value \<times> bool"
  real_nextafter :: "real_format \<Rightarrow> real_value \<Rightarrow> real_value \<Rightarrow> real_value \<times> bool"
  real_ldexp :: "real_value \<Rightarrow> int \<Rightarrow> real_value"
  real_value_truncate :: "real_format \<Rightarrow> real_value \<Rightarrow> real_value"

text \<open>
  Modelled from the spec: \<^verbatim>\<open>real_from_integer\<close> and \<^verbatim>\<open>real_to_integer\<close> (real.cc) are
  not part of the sources at hand. The first turns a \<^verbatim>\<open>HOST_WIDE_INT\<close> into the normal
  real constant of the same value (exact: the significand is wider than 64 bits) and
  rounds it to the format when one is given (\<^verbatim>\<open>VOIDmode\<close> is \<open>None\<close>). The second
  truncates a real constant toward zero to a \<^verbatim>\<open>HOST_WIDE_INT\<close> and saturates where the
  value does not fit. \<^verbatim>\<open>fold_const_pow\<close> uses the pair to test whether its exponent is
  an exact integer.
\<close>

fun bitlen :: "nat \<Rightarrow> nat" where
  "bitlen n = (if n = 0 then 0 else Suc (bitlen (n div 2)))"

declare bitlen.simps [simp del]

definition real_from_integer :: "real_env \<Rightarrow> real_format option \<Rightarrow> int \<Rightarrow> real_value" where
  "real_from_integer env fmt n =
     (let r = (if n = 0 then dconst0
               else \<lparr>cl = rvc_normal, sign = (n < 0), signalling = False,
                     uexp = int (bitlen (nat \<bar>n\<bar>)),
                     sig = nat \<bar>n\<bar> * 2 ^ (SIGNIFICAND_BITS - bitlen (nat \<bar>n\<bar>))\<rparr>)
      in case fmt of None \<Rightarrow> r | Some f \<Rightarrow> real_convert env f r)"

definition HOST_BITS_PER_WIDE_INT :: int where
  "HOST_BITS_PER_WIDE_INT = 64"

definition real_to_integer :: "real_value \<Rightarrow> int" where
  "real_to_integer r =
     (let overflow = (if sign r then - (2 ^ 63) else 2 ^ 63 - 1) in
      case cl r of
        rvc_zero \<Rightarrow> 0
      | rvc_inf \<Rightarrow> overflow
      | rvc_nan \<Rightarrow> overflow
      | rvc_normal \<Rightarrow>
          if uexp r \<le> 0 then 0
          else if uexp r > HOST_BITS_PER_WIDE_INT then overflow
          else let i = int (sig r div 2 ^ (SIGNIFICAND_BITS - nat (uexp r)))
               in sint (word_of_int (if sign r then - i else i) :: 64 word))"

subsection \<open>The exactness gate\<close>

definition do_mpfr_ckconv ::
  "real_env \<Rightarrow> flags \<Rightarrow> mpfr_flags \<Rightarrow> mpfr_t \<Rightarrow> bool \<Rightarrow> real_format \<Rightarrow> real_value option" where
  "do_mpfr_ckconv env fl st m inexact format =
     (if \<not> mpfr_number_p m
         \<or> mpfr_overflow_p st
         \<or> mpfr_underflow_p st
         \<or> (flag_rounding_math fl \<and> inexact)
      then None
      else let tmp = real_from_mpfr env m format in
        if \<not> real_isfinite tmp \<or> ((cl tmp = rvc_zero) \<noteq> mpfr_zero_p m)
        then None
        else let result = real_convert env format tmp in
          if real_identical result tmp then Some result else None)"

definition do_mpfr_arg1 ::
  "real_env \<Rightarrow> flags \<Rightarrow> mpfr_func \<Rightarrow> real_value \<Rightarrow> real_format \<Rightarrow> real_value option" where
  "do_mpfr_arg1 env fl func arg format =
     (if fmt_b format \<noteq> 2 \<or> \<not> real_isfinite arg then None
      else let prec = fmt_p format;
               rnd = (if fmt_round_towards_zero format then MPFR_RNDZ else MPFR_RNDN);
               m = mpfr_from_real env prec arg;
               r = mpfr_call env func prec rnd [m];
               inexact = (res_ternary r \<noteq> 0)
           in do_mpfr_ckconv env fl (res_flags r) (res_value r) inexact format)"

definition do_mpfr_arg2 ::
  "real_env \<Rightarrow> flags \<Rightarrow> mpfr_func \<Rightarrow> real_value \<Rightarrow> real_value \<Rightarrow> real_format
     \<Rightarrow> real_value option" where
  "do_mpfr_arg2 env fl func arg0 arg1 format =
     (if fmt_b format \<noteq> 2 \<or> \<not> real_isfinite arg0 \<or> \<not> real_isfinite arg1 then None
      else let prec = fmt_p format;
               rnd = (if fmt_round_towards_zero format then MPFR_RNDZ else MPFR_RNDN);
               m0 = mpfr_from_real env prec arg0;
               m1 = mpfr_from_real env prec arg1;
               r = mpfr_call env func prec rnd [m0, m1];
               inexact = (res_ternary r \<noteq> 0)
           in do_mpfr_ckconv env fl (res_flags r) (res_value r) inexact format)"

definition do_mpc_ckconv ::
  "real_env \<Rightarrow> flags \<Rightarrow> mpfr_flags \<Rightarrow> mpfr_t \<times> mpfr_t \<Rightarrow> bool \<Rightarrow> real_format
     \<Rightarrow> (real_value \<times> real_value) option" where
  "do_mpc_ckconv env fl st m inexact format =
     (if \<not> mpfr_number_p (fst m)
         \<or> \<not> mpfr_number_p (snd m)
         \<or> mpfr_overflow_p st
         \<or> mpfr_underflow_p st
         \<or> (flag_rounding_math fl \<and> inexact)
      then None
      else let tmp_real = real_from_mpfr env (fst m) format;
               tmp_imag = real_from_mpfr env (snd m) format in
        if \<not> real_isfinite tmp_real
           \<or> \<not> real_isfinite tmp_imag
           \<or> (cl tmp_real = rvc_zero) \<noteq> mpfr_zero_p (fst m)
           \<or> (cl tmp_imag = rvc_zero) \<noteq> mpfr_zero_p (snd m)
        then None
        else let result_real = real_convert env format tmp_real;
                 result_imag = real_convert env format tmp_imag in
          if real_identical result_real tmp_real \<and> real_identical result_imag tmp_imag
          then Some (result_real, result_imag) else None)"

definition do_mpc_arg1 ::
  "real_env \<Rightarrow> flags \<Rightarrow> mpc_func \<Rightarrow> real_value \<Rightarrow> real_value \<Rightarrow> real_format
     \<Rightarrow> (real_value \<times> real_value) option" where
  "do_mpc_arg1 env fl func arg_real arg_imag format =
     (if fmt_b format \<noteq> 2 \<or> \<not> real_isfinite arg_real \<or> \<not> real_isfinite arg_imag then None
      else let prec = fmt_p format;
               crnd = (if fmt_round_towards_zero format then MPC_RNDZZ else MPC_RNDNN);
               m = (mpfr_from_real env prec arg_real, mpfr_from_real env prec arg_imag);
               r = mpc_call env func prec crnd m;
               inexact = (cres_ternary r \<noteq> 0)
           in do_mpc_ckconv env fl (cres_flags r) (cres_real r, cres_imag r) inexact format)"


subsection \<open>Function identifiers\<close>

text \<open>
  \<^verbatim>\<open>combined_fn\<close> is one enumeration in the source. Each evaluator's switch names a
  few of its members and sends every other one to \<^verbatim>\<open>default: return false\<close>, so each
  evaluator gets the identifiers its switch names, and one more constructor that stands
  for all the others. One constructor stands for a group of case labels
  (\<^verbatim>\<open>CASE_CFN_SQRT\<close> and \<^verbatim>\<open>CASE_CFN_SQRT_FN\<close> are every precision variant of sqrt).
\<close>

datatype real_fn =
    CFN_SQRT | CFN_CBRT | CFN_ASIN | CFN_ACOS | CFN_ATAN | CFN_ASINH | CFN_ACOSH | CFN_ATANH
  | CFN_SIN | CFN_COS | CFN_TAN | CFN_SINH | CFN_COSH | CFN_TANH
  | CFN_ACOSPI | CFN_ASINPI | CFN_ATANPI | CFN_COSPI | CFN_SINPI | CFN_TANPI
  | CFN_ERF | CFN_ERFC | CFN_TGAMMA | CFN_EXP | CFN_EXP2 | CFN_EXP10 | CFN_EXPM1
  | CFN_LOG | CFN_LOG2 | CFN_LOG10 | CFN_LOG1P | CFN_J0 | CFN_J1 | CFN_Y0 | CFN_Y1
  | CFN_FLOOR | CFN_CEIL | CFN_TRUNC | CFN_ROUND | CFN_ROUNDEVEN | CFN_LOGB | CFN_SIGNIFICAND
  | CFN_OTHER_REAL

datatype real_real_fn =
    CFN_REMAINDER | CFN_ATAN2 | CFN_ATAN2PI | CFN_FDIM | CFN_FMOD | CFN_HYPOT | CFN_COPYSIGN
  | CFN_FMIN | CFN_FMAX | CFN_POW | CFN_NEXTAFTER | CFN_OTHER_REAL_REAL

datatype real_int_fn = CFN_LDEXP | CFN_SCALBN | CFN_SCALBLN | CFN_POWI | CFN_OTHER_REAL_INT

datatype complex_fn =
    CFN_CCOS | CFN_CCOSH | CFN_CPROJ | CFN_CSIN | CFN_CSINH | CFN_CTAN | CFN_CTANH | CFN_CLOG
  | CFN_CSQRT | CFN_CASIN | CFN_CACOS | CFN_CATAN | CFN_CASINH | CFN_CACOSH | CFN_CATANH
  | CFN_CEXP | CFN_OTHER_COMPLEX

subsection \<open>Special-value handlers\<close>

definition fold_const_logb :: "real_env \<Rightarrow> real_value \<Rightarrow> real_format \<Rightarrow> real_value option" where
  "fold_const_logb env arg format =
     (case cl arg of
        rvc_nan \<Rightarrow> Some arg
      | rvc_inf \<Rightarrow> Some (arg\<lparr>sign := False\<rparr>)
      | rvc_zero \<Rightarrow> None
      | rvc_normal \<Rightarrow>
          if fmt_b format = 2 then Some (real_from_integer env (Some format) (uexp arg - 1))
          else None)"

definition fold_const_significand :: "real_value \<Rightarrow> real_format \<Rightarrow> real_value option" where
  "fold_const_significand arg format =
     (case cl arg of
        rvc_zero \<Rightarrow> Some arg
      | rvc_nan \<Rightarrow> Some arg
      | rvc_inf \<Rightarrow> Some arg
      | rvc_normal \<Rightarrow> if fmt_b format = 2 then Some (arg\<lparr>uexp := 1\<rparr>) else None)"

definition fold_const_pow ::
  "real_env \<Rightarrow> flags \<Rightarrow> real_value \<Rightarrow> real_value \<Rightarrow> real_format \<Rightarrow> real_value option" where
  "fold_const_pow env fl arg0 arg1 format =
     (case do_mpfr_arg2 env fl mpfr_pow arg0 arg1 format of
        Some result \<Rightarrow> Some result
      | None \<Rightarrow>
          let n1 = real_to_integer arg1;
              cint1 = real_from_integer env None n1 in
          if real_identical arg1 cint1
             \<and> (n1 > 0
                \<or> (\<not> flag_trapping_math fl \<and> \<not> flag_errno_math fl)
                \<or> \<not> real_equal arg0 dconst0)
          then
            let (result, inexact) = real_powi env format arg0 n1 in
            if flag_unsafe_math_optimizations fl
               \<or> (\<not> inexact
                   \<and> \<not> (flag_signaling_nans fl \<and> REAL_VALUE_ISSIGNALING_NAN arg0))
            then Some result
            else None
          else None)"

text \<open>
  The entry condition of the integer-power fallback of \<^verbatim>\<open>fold_const_pow\<close>, named for
  use in the statements below: the exponent is an exact integer, and it is positive, or
  neither trapping-math nor errno-math is on, or the base is not zero.
\<close>

definition pow_fallback_entry :: "real_env \<Rightarrow> flags \<Rightarrow> real_value \<Rightarrow> real_value \<Rightarrow> bool" where
  "pow_fallback_entry env fl arg0 arg1 =
     (real_identical arg1 (real_from_integer env None (real_to_integer arg1))
      \<and> (real_to_integer arg1 > 0
         \<or> (\<not> flag_trapping_math fl \<and> \<not> flag_errno_math fl)
         \<or> \<not> real_equal arg0 dconst0))"

definition fold_const_nextafter ::
  "real_env \<Rightarrow> flags \<Rightarrow> real_value \<Rightarrow> real_value \<Rightarrow> real_format \<Rightarrow> real_value option" where
  "fold_const_nextafter env fl arg0 arg1 format =
     (if REAL_VALUE_ISSIGNALING_NAN arg0 \<or> REAL_VALUE_ISSIGNALING_NAN arg1 then None
      else if fmt_pnan format < fmt_p format
              \<or> fmt_b format = 10
              \<or> \<not> fmt_has_inf format
              \<or> \<not> fmt_has_denorm format then None
      else let (result, raised) = real_nextafter env format arg0 arg1 in
        if raised \<and> (flag_trapping_math fl \<or> flag_errno_math fl) then None
        else if flag_trapping_math fl \<and> cl arg0 = rvc_zero \<and> cl result \<noteq> rvc_zero then None
        else Some (real_convert env format result))"

text \<open>
  \<^verbatim>\<open>max_exp_adj\<close> is a C \<^verbatim>\<open>int\<close>: the product is truncated to 32 bits. \<open>arg1\<close> is the
  signed value of the integer constant.
\<close>

definition fold_const_builtin_load_exponent ::
  "real_env \<Rightarrow> flags \<Rightarrow> real_value \<Rightarrow> int \<Rightarrow> real_format \<Rightarrow> real_value option" where
  "fold_const_builtin_load_exponent env fl arg0 arg1 format =
     (let max_exp_adj = sint (word_of_int (2 * \<bar>fmt_emax format - fmt_emin format\<bar>) :: 32 word) in
      if arg1 \<le> - max_exp_adj \<or> arg1 \<ge> max_exp_adj then None
      else if \<not> flag_unsafe_math_optimizations fl
              \<and> flag_signaling_nans fl
              \<and> REAL_VALUE_ISSIGNALING_NAN arg0 then None
      else let initial_result = real_ldexp env arg0 arg1 in
        if real_isinf initial_result then None
        else let result = real_value_truncate env format initial_result in
          if real_equal initial_result result then Some result else None)"

subsection \<open>The real evaluator\<close>

fun fold_const_call_ss ::
  "real_env \<Rightarrow> flags \<Rightarrow> real_fn \<Rightarrow> real_value \<Rightarrow> real_format \<Rightarrow> real_value option" where
  "fold_const_call_ss env fl CFN_SQRT arg format =
     (if real_compare GE_EXPR arg dconst0 then do_mpfr_arg1 env fl mpfr_sqrt arg format else None)"
| "fold_const_call_ss env fl CFN_CBRT arg format = do_mpfr_arg1 env fl mpfr_cbrt arg format"
| "fold_const_call_ss env fl CFN_ASIN arg format =
     (if real_compare GE_EXPR arg dconstm1 \<and> real_compare LE_EXPR arg dconst1
      then do_mpfr_arg1 env fl mpfr_asin arg format else None)"
| "fold_const_call_ss env fl CFN_ACOS arg format =
     (if real_compare GE_EXPR arg dconstm1 \<and> real_compare LE_EXPR arg dconst1
      then do_mpfr_arg1 env fl mpfr_acos arg format else None)"
| "fold_const_call_ss env fl CFN_ATAN arg format = do_mpfr_arg1 env fl mpfr_atan arg format"
| "fold_const_call_ss env fl CFN_ASINH arg format = do_mpfr_arg1 env fl mpfr_asinh arg format"
| "fold_const_call_ss env fl CFN_ACOSH arg format =
     (if real_compare GE_EXPR arg dconst1 then do_mpfr_arg1 env fl mpfr_acosh arg format else None)"
| "fold_const_call_ss env fl CFN_ATANH arg format =
     (if real_compare GE_EXPR arg dconstm1 \<and> real_compare LE_EXPR arg dconst1
      then do_mpfr_arg1 env fl mpfr_atanh arg format else None)"
| "fold_const_call_ss env fl CFN_SIN arg format = do_mpfr_arg1 env fl mpfr_sin arg format"
| "fold_const_call_ss env fl CFN_COS arg format = do_mpfr_arg1 env fl mpfr_cos arg format"
| "fold_const_call_ss env fl CFN_TAN arg format = do_mpfr_arg1 env fl mpfr_tan arg format"
| "fold_const_call_ss env fl CFN_SINH arg format = do_mpfr_arg1 env fl mpfr_sinh arg format"
| "fold_const_call_ss env fl CFN_COSH arg format = do_mpfr_arg1 env fl mpfr_cosh arg format"
| "fold_const_call_ss env fl CFN_TANH arg format = do_mpfr_arg1 env fl mpfr_tanh arg format"
| "fold_const_call_ss env fl CFN_ACOSPI arg format =
     (if real_compare GE_EXPR arg dconstm1 \<and> real_compare LE_EXPR arg dconst1
      then do_mpfr_arg1 env fl mpfr_acospi arg format else None)"
| "fold_const_call_ss env fl CFN_ASINPI arg format =
     (if real_compare GE_EXPR arg dconstm1 \<and> real_compare LE_EXPR arg dconst1
      then do_mpfr_arg1 env fl mpfr_asinpi arg format else None)"
| "fold_const_call_ss env fl CFN_ATANPI arg format = do_mpfr_arg1 env fl mpfr_atanpi arg format"
| "fold_const_call_ss env fl CFN_COSPI arg format = do_mpfr_arg1 env fl mpfr_cospi arg format"
| "fold_const_call_ss env fl CFN_SINPI arg format = do_mpfr_arg1 env fl mpfr_sinpi arg format"
| "fold_const_call_ss env fl CFN_TANPI arg format = do_mpfr_arg1 env fl mpfr_tanpi arg format"
| "fold_const_call_ss env fl CFN_ERF arg format = do_mpfr_arg1 env fl mpfr_erf arg format"
| "fold_const_call_ss env fl CFN_ERFC arg format = do_mpfr_arg1 env fl mpfr_erfc arg format"
| "fold_const_call_ss env fl CFN_TGAMMA arg format = do_mpfr_arg1 env fl mpfr_gamma arg format"
| "fold_const_call_ss env fl CFN_EXP arg format = do_mpfr_arg1 env fl mpfr_exp arg format"
| "fold_const_call_ss env fl CFN_EXP2 arg format = do_mpfr_arg1 env fl mpfr_exp2 arg format"
| "fold_const_call_ss env fl CFN_EXP10 arg format = do_mpfr_arg1 env fl mpfr_exp10 arg format"
| "fold_const_call_ss env fl CFN_EXPM1 arg format = do_mpfr_arg1 env fl mpfr_expm1 arg format"
| "fold_const_call_ss env fl CFN_LOG arg format =
     (if real_compare GT_EXPR arg dconst0 then do_mpfr_arg1 env fl mpfr_log arg format else None)"
| "fold_const_call_ss env fl CFN_LOG2 arg format =
     (if real_compare GT_EXPR arg dconst0 then do_mpfr_arg1 env fl mpfr_log2 arg format else None)"
| "fold_const_call_ss env fl CFN_LOG10 arg format =
     (if real_compare GT_EXPR arg dconst0 then do_mpfr_arg1 env fl mpfr_log10 arg format else None)"
| "fold_const_call_ss env fl CFN_LOG1P arg format =
     (if real_compare GT_EXPR arg dconstm1 then do_mpfr_arg1 env fl mpfr_log1p arg format else None)"
| "fold_const_call_ss env fl CFN_J0 arg format = do_mpfr_arg1 env fl mpfr_j0 arg format"
| "fold_const_call_ss env fl CFN_J1 arg format = do_mpfr_arg1 env fl mpfr_j1 arg format"
| "fold_const_call_ss env fl CFN_Y0 arg format =
     (if real_compare GT_EXPR arg dconst0 then do_mpfr_arg1 env fl mpfr_y0 arg format else None)"
| "fold_const_call_ss env fl CFN_Y1 arg format =
     (if real_compare GT_EXPR arg dconst0 then do_mpfr_arg1 env fl mpfr_y1 arg format else None)"
| "fold_const_call_ss env fl CFN_FLOOR arg format =
     (if \<not> REAL_VALUE_ISSIGNALING_NAN arg then Some (real_floor env format arg) else None)"
| "fold_const_call_ss env fl CFN_CEIL arg format =
     (if \<not> REAL_VALUE_ISSIGNALING_NAN arg then Some (real_ceil env format arg) else None)"
| "fold_const_call_ss env fl CFN_TRUNC arg format =
     (if \<not> REAL_VALUE_ISSIGNALING_NAN arg then Some (real_trunc env format arg) else None)"
| "fold_const_call_ss env fl CFN_ROUND arg format =
     (if \<not> REAL_VALUE_ISSIGNALING_NAN arg then Some (real_round env format arg) else None)"
| "fold_const_call_ss env fl CFN_ROUNDEVEN arg format =
     (if \<not> REAL_VALUE_ISSIGNALING_NAN arg then Some (real_roundeven env format arg) else None)"
| "fold_const_call_ss env fl CFN_LOGB arg format = fold_const_logb env arg format"
| "fold_const_call_ss env fl CFN_SIGNIFICAND arg format = fold_const_significand arg format"
| "fold_const_call_ss env fl _ arg format = None"

text \<open>The two-operand evaluators: real, real and real, integer.\<close>

fun fold_const_call_sss ::
  "real_env \<Rightarrow> flags \<Rightarrow> real_real_fn \<Rightarrow> real_value \<Rightarrow> real_value \<Rightarrow> real_format
     \<Rightarrow> real_value option" where
  "fold_const_call_sss env fl CFN_REMAINDER arg0 arg1 format =
     do_mpfr_arg2 env fl mpfr_remainder arg0 arg1 format"
| "fold_const_call_sss env fl CFN_ATAN2 arg0 arg1 format =
     do_mpfr_arg2 env fl mpfr_atan2 arg0 arg1 format"
| "fold_const_call_sss env fl CFN_ATAN2PI arg0 arg1 format =
     do_mpfr_arg2 env fl mpfr_atan2pi arg0 arg1 format"
| "fold_const_call_sss env fl CFN_FDIM arg0 arg1 format =
     do_mpfr_arg2 env fl mpfr_dim arg0 arg1 format"
| "fold_const_call_sss env fl CFN_FMOD arg0 arg1 format =
     do_mpfr_arg2 env fl mpfr_fmod arg0 arg1 format"
| "fold_const_call_sss env fl CFN_HYPOT arg0 arg1 format =
     do_mpfr_arg2 env fl mpfr_hypot arg0 arg1 format"
| "fold_const_call_sss env fl CFN_COPYSIGN arg0 arg1 format =
     Some (real_copysign arg0 arg1)"
| "fold_const_call_sss env fl CFN_FMIN arg0 arg1 format =
     do_mpfr_arg2 env fl mpfr_min arg0 arg1 format"
| "fold_const_call_sss env fl CFN_FMAX arg0 arg1 format =
     do_mpfr_arg2 env fl mpfr_max arg0 arg1 format"
| "fold_const_call_sss env fl CFN_POW arg0 arg1 format =
     fold_const_pow env fl arg0 arg1 format"
| "fold_const_call_sss env fl CFN_NEXTAFTER arg0 arg1 format =
     fold_const_nextafter env fl arg0 arg1 format"
| "fold_const_call_sss env fl _ arg0 arg1 format = None"

fun fold_const_call_sss_real_int ::
  "real_env \<Rightarrow> flags \<Rightarrow> real_int_fn \<Rightarrow> real_value \<Rightarrow> int \<Rightarrow> real_format \<Rightarrow> real_value option" where
  "fold_const_call_sss_real_int env fl CFN_LDEXP arg0 arg1 format =
     fold_const_builtin_load_exponent env fl arg0 arg1 format"
| "fold_const_call_sss_real_int env fl CFN_SCALBN arg0 arg1 format =
     (if fmt_b format = 2 then fold_const_builtin_load_exponent env fl arg0 arg1 format else None)"
| "fold_const_call_sss_real_int env fl CFN_SCALBLN arg0 arg1 format =
     (if fmt_b format = 2 then fold_const_builtin_load_exponent env fl arg0 arg1 format else None)"
| "fold_const_call_sss_real_int env fl CFN_POWI arg0 arg1 format =
     (if \<not> flag_unsafe_math_optimizations fl
         \<and> flag_signaling_nans fl
         \<and> REAL_VALUE_ISSIGNALING_NAN arg0 then None
      else Some (fst (real_powi env format arg0 arg1)))"
| "fold_const_call_sss_real_int env fl _ arg0 arg1 format = None"

subsection \<open>The complex evaluator\<close>

fun fold_const_call_cc ::
  "real_env \<Rightarrow> flags \<Rightarrow> complex_fn \<Rightarrow> real_value \<Rightarrow> real_value \<Rightarrow> real_format
     \<Rightarrow> (real_value \<times> real_value) option" where
  "fold_const_call_cc env fl CFN_CCOS ar ai format = do_mpc_arg1 env fl mpc_cos ar ai format"
| "fold_const_call_cc env fl CFN_CCOSH ar ai format = do_mpc_arg1 env fl mpc_cosh ar ai format"
| "fold_const_call_cc env fl CFN_CPROJ ar ai format =
     (if real_isinf ar \<or> real_isinf ai
      then Some (dconstinf, dconst0\<lparr>sign := sign ai\<rparr>)
      else Some (ar, ai))"
| "fold_const_call_cc env fl CFN_CSIN ar ai format = do_mpc_arg1 env fl mpc_sin ar ai format"
| "fold_const_call_cc env fl CFN_CSINH ar ai format = do_mpc_arg1 env fl mpc_sinh ar ai format"
| "fold_const_call_cc env fl CFN_CTAN ar ai format = do_mpc_arg1 env fl mpc_tan ar ai format"
| "fold_const_call_cc env fl CFN_CTANH ar ai format = do_mpc_arg1 env fl mpc_tanh ar ai format"
| "fold_const_call_cc env fl CFN_CLOG ar ai format = do_mpc_arg1 env fl mpc_log ar ai format"
| "fold_const_call_cc env fl CFN_CSQRT ar ai format = do_mpc_arg1 env fl mpc_sqrt ar ai format"
| "fold_const_call_cc env fl CFN_CASIN ar ai format = do_mpc_arg1 env fl mpc_asin ar ai format"
| "fold_const_call_cc env fl CFN_CACOS ar ai format = do_mpc_arg1 env fl mpc_acos ar ai format"
| "fold_const_call_cc env fl CFN_CATAN ar ai format = do_mpc_arg1 env fl mpc_atan ar ai format"
| "fold_const_call_cc env fl CFN_CASINH ar ai format = do_mpc_arg1 env fl mpc_asinh ar ai format"
| "fold_const_call_cc env fl CFN_CACOSH ar ai format = do_mpc_arg1 env fl mpc_acosh ar ai format"
| "fold_const_call_cc env fl CFN_CATANH ar ai format = do_mpc_arg1 env fl mpc_atanh ar ai format"
| "fold_const_call_cc env fl CFN_CEXP ar ai format = do_mpc_arg1 env fl mpc_exp ar ai format"
| "fold_const_call_cc env fl _ ar ai format = None"

subsection \<open>Integer constants and the integer evaluator\<close>

text \<open>
  Modelled from the spec: tree types (tree.h) are not part of the sources at hand. An
  integer type has a bit width and a signedness; \<^verbatim>\<open>_BitInt\<close> types are told apart
  because the zero-input policy of clz and ctz does.
\<close>

datatype tree_type =
    INTEGER_TYPE nat bool
  | BITINT_TYPE nat bool
  | POINTER_TYPE nat
  | COMPLEX_TYPE tree_type

fun TYPE_PRECISION :: "tree_type \<Rightarrow> nat" where
  "TYPE_PRECISION (INTEGER_TYPE p u) = p"
| "TYPE_PRECISION (BITINT_TYPE p u) = p"
| "TYPE_PRECISION (POINTER_TYPE p) = p"
| "TYPE_PRECISION (COMPLEX_TYPE t) = 0"

fun TYPE_UNSIGNED :: "tree_type \<Rightarrow> bool" where
  "TYPE_UNSIGNED (INTEGER_TYPE p u) = u"
| "TYPE_UNSIGNED (BITINT_TYPE p u) = u"
| "TYPE_UNSIGNED (POINTER_TYPE p) = True"
| "TYPE_UNSIGNED (COMPLEX_TYPE t) = False"

text \<open>
  The target macros \<^verbatim>\<open>CLZ_DEFINED_VALUE_AT_ZERO\<close> and \<^verbatim>\<open>CTZ_DEFINED_VALUE_AT_ZERO\<close>
  (tm.h), applied to the mode of a type: \<open>None\<close> when the macro yields 0, \<open>Some v\<close>
  when it yields nonzero and stores \<open>v\<close>. \<^verbatim>\<open>size_type_node\<close> is the target's size_t.
\<close>

record target =
  CLZ_DEFINED_VALUE_AT_ZERO :: "tree_type \<Rightarrow> int option"
  CTZ_DEFINED_VALUE_AT_ZERO :: "tree_type \<Rightarrow> int option"
  size_type_node :: tree_type

text \<open>
  Modelled from the spec: \<^verbatim>\<open>wide_int\<close> and the bit operations of wide-int.h are not part
  of the sources at hand. A wide integer is a bit width and the unsigned value of its
  bits; the operations are the reference bit definitions: \<^verbatim>\<open>wi::clz\<close> counts the zero
  bits above the highest set bit, \<^verbatim>\<open>wi::ctz\<close> the zero bits below the lowest set bit
  (the width for zero), \<^verbatim>\<open>wi::ffs\<close> is one more than ctz (0 for zero), \<^verbatim>\<open>wi::popcount\<close>
  counts the set bits, \<^verbatim>\<open>wi::parity\<close> is its low bit, \<^verbatim>\<open>wi::clrsb\<close> counts the bits
  below the sign bit that repeat it, \<^verbatim>\<open>wi::bswap\<close> reverses the bytes, and
  \<^verbatim>\<open>wi::shwi\<close> truncates a host integer to a width.
\<close>

record wide_int =
  wi_precision :: nat
  wi_val :: nat

definition wi_shwi :: "int \<Rightarrow> nat \<Rightarrow> wide_int" where
  "wi_shwi v precision = \<lparr>wi_precision = precision, wi_val = nat (v mod 2 ^ precision)\<rparr>"

definition wi_to_int :: "wide_int \<Rightarrow> int" where
  "wi_to_int x =
     (if wi_precision x > 0 \<and> wi_val x \<ge> 2 ^ (wi_precision x - 1)
      then int (wi_val x) - 2 ^ wi_precision x else int (wi_val x))"

definition wi_to_shwi :: "wide_int \<Rightarrow> int" where
  "wi_to_shwi x = sint (word_of_int (wi_to_int x) :: 64 word)"

definition host_int :: "int \<Rightarrow> int" where
  "host_int v = sint (word_of_int v :: 32 word)"

definition wi_clz :: "wide_int \<Rightarrow> nat" where
  "wi_clz x = wi_precision x - bitlen (wi_val x)"

fun ctz_nat :: "nat \<Rightarrow> nat" where
  "ctz_nat n = (if n = 0 \<or> odd n then 0 else Suc (ctz_nat (n div 2)))"

declare ctz_nat.simps [simp del]

definition wi_ctz :: "wide_int \<Rightarrow> nat" where
  "wi_ctz x = (if wi_val x = 0 then wi_precision x else ctz_nat (wi_val x))"

definition wi_ffs :: "wide_int \<Rightarrow> nat" where
  "wi_ffs x = (if wi_val x = 0 then 0 else ctz_nat (wi_val x) + 1)"

fun popcount_nat :: "nat \<Rightarrow> nat" where
  "popcount_nat n = (if n = 0 then 0 else n mod 2 + popcount_nat (n div 2))"

declare popcount_nat.simps [simp del]

definition wi_popcount :: "wide_int \<Rightarrow> nat" where
  "wi_popcount x = popcount_nat (wi_val x)"

definition wi_parity :: "wide_int \<Rightarrow> nat" where
  "wi_parity x = wi_popcount x mod 2"

definition wi_clrsb :: "wide_int \<Rightarrow> nat" where
  "wi_clrsb x =
     (if wi_precision x > 0 \<and> wi_val x \<ge> 2 ^ (wi_precision x - 1)
      then wi_precision x - bitlen (2 ^ wi_precision x - 1 - wi_val x) - 1
      else wi_precision x - bitlen (wi_val x) - 1)"

fun bswap_bytes :: "nat \<Rightarrow> nat \<Rightarrow> nat" where
  "bswap_bytes 0 v = 0"
| "bswap_bytes (Suc k) v = (v mod 256) * 256 ^ k + bswap_bytes k (v div 256)"

definition wi_bswap :: "wide_int \<Rightarrow> wide_int" where
  "wi_bswap x = x\<lparr>wi_val := bswap_bytes (wi_precision x div 8) (wi_val x)\<rparr>"

definition wide_int_from :: "wide_int \<Rightarrow> nat \<Rightarrow> bool \<Rightarrow> wide_int" where
  "wide_int_from x precision unsignedp =
     wi_shwi (if unsignedp then int (wi_val x) else wi_to_int x) precision"

datatype int_fn =
    CFN_FFS | CFN_CLZ | CFN_CTZ | CFN_CLRSB | CFN_POPCOUNT | CFN_PARITY | CFN_BSWAP
  | CFN_OTHER_INT

text \<open>\<^verbatim>\<open>fold_const_call_ss\<close> on an integer argument; \<open>tmp\<close> is a C \<^verbatim>\<open>int\<close>.\<close>

fun fold_const_call_ss_wide ::
  "target \<Rightarrow> int_fn \<Rightarrow> wide_int \<Rightarrow> nat \<Rightarrow> tree_type \<Rightarrow> wide_int option" where
  "fold_const_call_ss_wide tg CFN_FFS arg precision arg_type =
     Some (wi_shwi (int (wi_ffs arg)) precision)"
| "fold_const_call_ss_wide tg CFN_CLZ arg precision arg_type =
     (let tmp =
        (if wi_val arg \<noteq> 0 then int (wi_clz arg)
         else case arg_type of
           BITINT_TYPE p u \<Rightarrow> int (TYPE_PRECISION arg_type)
         | _ \<Rightarrow> (case CLZ_DEFINED_VALUE_AT_ZERO tg arg_type of
                   None \<Rightarrow> int (TYPE_PRECISION arg_type)
                 | Some v \<Rightarrow> v))
      in Some (wi_shwi tmp precision))"
| "fold_const_call_ss_wide tg CFN_CTZ arg precision arg_type =
     (let tmp =
        (if wi_val arg \<noteq> 0 then int (wi_ctz arg)
         else case arg_type of
           BITINT_TYPE p u \<Rightarrow> int (TYPE_PRECISION arg_type)
         | _ \<Rightarrow> (case CTZ_DEFINED_VALUE_AT_ZERO tg arg_type of
                   None \<Rightarrow> int (TYPE_PRECISION arg_type)
                 | Some v \<Rightarrow> v))
      in Some (wi_shwi tmp precision))"
| "fold_const_call_ss_wide tg CFN_CLRSB arg precision arg_type =
     Some (wi_shwi (int (wi_clrsb arg)) precision)"
| "fold_const_call_ss_wide tg CFN_POPCOUNT arg precision arg_type =
     Some (wi_shwi (int (wi_popcount arg)) precision)"
| "fold_const_call_ss_wide tg CFN_PARITY arg precision arg_type =
     Some (wi_shwi (int (wi_parity arg)) precision)"
| "fold_const_call_ss_wide tg CFN_BSWAP arg precision arg_type =
     Some (wi_bswap (wide_int_from arg precision (TYPE_UNSIGNED arg_type)))"
| "fold_const_call_ss_wide tg CFN_OTHER_INT arg precision arg_type = None"

text \<open>\<^verbatim>\<open>fold_const_call_sss\<close> on two integer arguments.\<close>

fun fold_const_call_sss_wide ::
  "int_fn \<Rightarrow> wide_int \<Rightarrow> wide_int \<Rightarrow> nat \<Rightarrow> tree_type \<Rightarrow> wide_int option" where
  "fold_const_call_sss_wide CFN_CLZ arg0 arg1 precision arg_type =
     (let tmp = (if wi_val arg0 \<noteq> 0 then int (wi_clz arg0) else host_int (wi_to_shwi arg1))
      in Some (wi_shwi tmp precision))"
| "fold_const_call_sss_wide CFN_CTZ arg0 arg1 precision arg_type =
     (let tmp = (if wi_val arg0 \<noteq> 0 then int (wi_ctz arg0) else host_int (wi_to_shwi arg1))
      in Some (wi_shwi tmp precision))"
| "fold_const_call_sss_wide fn arg0 arg1 precision arg_type = None"

subsection \<open>Trees: operands and results of the routing layer\<close>

text \<open>
  Modelled from the spec: trees (tree.h) and their accessors \<^verbatim>\<open>TREE_TYPE\<close>,
  \<^verbatim>\<open>TREE_SIDE_EFFECTS\<close>, \<^verbatim>\<open>c_getstr\<close>, \<^verbatim>\<open>getbyterep\<close> and \<^verbatim>\<open>target_char_cst_p\<close> are
  not part of the sources at hand. After the spec's data model, an operand is an integer
  constant (type, value, overflow mark), a byte literal whose content and length are
  statically known, or an expression that is not a foldable constant; only the last can
  carry an observable side effect. A folded result is an integer constant, a complex
  pair, or a pointer into the first operand.
\<close>

datatype tree =
    INTEGER_CST tree_type int bool
  | COMPLEX_CST tree_type tree tree
  | BYTE_LITERAL "nat list"
  | POINTER_PLUS_EXPR tree_type tree int
  | EXPR tree_type bool

definition char_ptr_type :: tree_type where
  "char_ptr_type = POINTER_TYPE 64"

fun TREE_TYPE :: "tree \<Rightarrow> tree_type" where
  "TREE_TYPE (INTEGER_CST ty v ovf) = ty"
| "TREE_TYPE (COMPLEX_CST ty re im) = ty"
| "TREE_TYPE (BYTE_LITERAL bs) = char_ptr_type"
| "TREE_TYPE (POINTER_PLUS_EXPR ty t n) = ty"
| "TREE_TYPE (EXPR ty se) = ty"

fun TREE_OVERFLOW :: "tree \<Rightarrow> bool" where
  "TREE_OVERFLOW (INTEGER_CST ty v ovf) = ovf"
| "TREE_OVERFLOW t = False"

fun TREE_SIDE_EFFECTS :: "tree \<Rightarrow> bool" where
  "TREE_SIDE_EFFECTS (EXPR ty se) = se"
| "TREE_SIDE_EFFECTS (POINTER_PLUS_EXPR ty t n) = TREE_SIDE_EFFECTS t"
| "TREE_SIDE_EFFECTS t = False"

text \<open>
  \<^verbatim>\<open>c_getstr\<close> yields the C string of a literal that holds a terminating NUL (the bytes
  before the first NUL); \<^verbatim>\<open>getbyterep\<close> yields all the bytes of a literal, their number
  being the size.
\<close>

fun c_getstr :: "tree \<Rightarrow> nat list option" where
  "c_getstr (BYTE_LITERAL bs) = (if 0 \<in> set bs then Some (takeWhile (\<lambda>b. b \<noteq> 0) bs) else None)"
| "c_getstr t = None"

fun getbyterep :: "tree \<Rightarrow> nat list option" where
  "getbyterep (BYTE_LITERAL bs) = Some bs"
| "getbyterep t = None"

fun tree_fits_uhwi_p :: "tree \<Rightarrow> bool" where
  "tree_fits_uhwi_p (INTEGER_CST ty v ovf) = (0 \<le> v \<and> v < 2 ^ 64)"
| "tree_fits_uhwi_p t = False"

fun tree_to_uhwi :: "tree \<Rightarrow> nat" where
  "tree_to_uhwi (INTEGER_CST ty v ovf) = nat v"
| "tree_to_uhwi t = 0"

definition target_char_cst_p :: "tree \<Rightarrow> nat option" where
  "target_char_cst_p t = (if tree_fits_uhwi_p t then Some (tree_to_uhwi t mod 256) else None)"

definition types_compatible_p :: "tree_type \<Rightarrow> tree_type \<Rightarrow> bool" where
  "types_compatible_p t1 t2 = (t1 = t2)"

text \<open>The value of an integer type that a mathematical integer truncates to.\<close>

definition wrap_value :: "tree_type \<Rightarrow> int \<Rightarrow> int" where
  "wrap_value ty v =
     (if TYPE_UNSIGNED ty then v mod 2 ^ TYPE_PRECISION ty
      else (v + 2 ^ (TYPE_PRECISION ty - 1)) mod 2 ^ TYPE_PRECISION ty
           - 2 ^ (TYPE_PRECISION ty - 1))"

definition fits_type :: "tree_type \<Rightarrow> int \<Rightarrow> bool" where
  "fits_type ty v =
     (if TYPE_UNSIGNED ty then 0 \<le> v \<and> v < 2 ^ TYPE_PRECISION ty
      else - (2 ^ (TYPE_PRECISION ty - 1)) \<le> v \<and> v < 2 ^ (TYPE_PRECISION ty - 1))"

definition build_int_cst :: "tree_type \<Rightarrow> int \<Rightarrow> tree" where
  "build_int_cst ty v = INTEGER_CST ty (wrap_value ty v) False"

definition build_complex :: "tree_type \<Rightarrow> tree \<Rightarrow> tree \<Rightarrow> tree" where
  "build_complex ty re im = COMPLEX_CST ty re im"

text \<open>The test functions and \<^verbatim>\<open>build_cmp_result\<close> of the source.\<close>

fun integer_cst_p :: "tree \<Rightarrow> bool" where
  "integer_cst_p (INTEGER_CST ty v ovf) = (\<not> ovf)"
| "integer_cst_p t = False"

definition size_t_cst_p :: "target \<Rightarrow> tree \<Rightarrow> nat option" where
  "size_t_cst_p tg t =
     (if types_compatible_p (size_type_node tg) (TREE_TYPE t)
         \<and> integer_cst_p t
         \<and> tree_fits_uhwi_p t
      then Some (tree_to_uhwi t) else None)"

definition build_cmp_result :: "tree_type \<Rightarrow> int \<Rightarrow> tree" where
  "build_cmp_result ty res = build_int_cst ty (if res < 0 then - 1 else if res > 0 then 1 else 0)"

subsection \<open>Overflow-checked arithmetic\<close>

text \<open>
  Modelled from the spec: \<^verbatim>\<open>fold_convert\<close>, \<^verbatim>\<open>int_const_binop\<close>, \<^verbatim>\<open>arith_overflowed_p\<close>
  and \<^verbatim>\<open>drop_tree_overflow\<close> (fold-const.cc, tree.cc) are not part of the sources at hand.
  Conversion and the binary operation truncate to the width of the type (marking a
  signed result that did not fit); \<^verbatim>\<open>arith_overflowed_p\<close> computes the operation on the
  values of the original operands at a width wide enough to be unambiguous (here: on the
  mathematical integers) and tells whether the result fits the type.
\<close>

fun fold_convert :: "tree_type \<Rightarrow> tree \<Rightarrow> tree" where
  "fold_convert ty (INTEGER_CST ty0 v ovf) =
     INTEGER_CST ty (wrap_value ty v) (ovf \<or> (\<not> TYPE_UNSIGNED ty \<and> \<not> fits_type ty v))"
| "fold_convert ty t = t"

fun arith_op :: "tree_code \<Rightarrow> int \<Rightarrow> int \<Rightarrow> int option" where
  "arith_op PLUS_EXPR x y = Some (x + y)"
| "arith_op MINUS_EXPR x y = Some (x - y)"
| "arith_op MULT_EXPR x y = Some (x * y)"
| "arith_op code x y = None"

fun int_const_binop :: "tree_code \<Rightarrow> tree \<Rightarrow> tree \<Rightarrow> tree option" where
  "int_const_binop code (INTEGER_CST ty x ovf1) (INTEGER_CST ty2 y ovf2) =
     (case arith_op code x y of
        None \<Rightarrow> None
      | Some res \<Rightarrow>
          Some (INTEGER_CST ty (wrap_value ty res)
                  ((\<not> TYPE_UNSIGNED ty \<and> \<not> fits_type ty res) \<or> ovf1 \<or> ovf2)))"
| "int_const_binop code t1 t2 = None"

fun arith_overflowed_p :: "tree_code \<Rightarrow> tree_type \<Rightarrow> tree \<Rightarrow> tree \<Rightarrow> bool" where
  "arith_overflowed_p code ty (INTEGER_CST ty1 x ovf1) (INTEGER_CST ty2 y ovf2) =
     (case arith_op code x y of None \<Rightarrow> False | Some res \<Rightarrow> \<not> fits_type ty res)"
| "arith_overflowed_p code ty t1 t2 = False"

fun drop_tree_overflow :: "tree \<Rightarrow> tree" where
  "drop_tree_overflow (INTEGER_CST ty v ovf) = INTEGER_CST ty v False"
| "drop_tree_overflow t = t"

fun is_INTEGER_CST :: "tree \<Rightarrow> bool" where
  "is_INTEGER_CST (INTEGER_CST ty v ovf) = True"
| "is_INTEGER_CST t = False"

datatype overflow_fn =
    CFN_UBSAN_CHECK_ADD | CFN_ADD_OVERFLOW
  | CFN_UBSAN_CHECK_SUB | CFN_SUB_OVERFLOW
  | CFN_UBSAN_CHECK_MUL | CFN_MUL_OVERFLOW

fun overflow_subcode :: "overflow_fn \<Rightarrow> tree_code" where
  "overflow_subcode CFN_UBSAN_CHECK_ADD = PLUS_EXPR"
| "overflow_subcode CFN_ADD_OVERFLOW = PLUS_EXPR"
| "overflow_subcode CFN_UBSAN_CHECK_SUB = MINUS_EXPR"
| "overflow_subcode CFN_SUB_OVERFLOW = MINUS_EXPR"
| "overflow_subcode CFN_UBSAN_CHECK_MUL = MULT_EXPR"
| "overflow_subcode CFN_MUL_OVERFLOW = MULT_EXPR"

text \<open>
  The two-operand \<^verbatim>\<open>fold_const_call\<close> at its six overflow labels: each sets
  \<^verbatim>\<open>subcode\<close> and jumps to \<^verbatim>\<open>arith_overflow\<close>.
\<close>

definition fold_const_call_arith_overflow ::
  "overflow_fn \<Rightarrow> tree_type \<Rightarrow> tree \<Rightarrow> tree \<Rightarrow> tree option" where
  "fold_const_call_arith_overflow fn type arg0 arg1 =
     (let subcode = overflow_subcode fn in
      if integer_cst_p arg0 \<and> integer_cst_p arg1 then
        let itype = (case type of COMPLEX_TYPE t \<Rightarrow> t | _ \<Rightarrow> type) in
        case int_const_binop subcode (fold_convert itype arg0) (fold_convert itype arg1) of
          None \<Rightarrow> None
        | Some r \<Rightarrow>
            if \<not> is_INTEGER_CST r then None
            else let ovf = arith_overflowed_p subcode itype arg0 arg1;
                     r' = (if TREE_OVERFLOW r then drop_tree_overflow r else r) in
              if itype = type then (if ovf then None else Some r')
              else Some (build_complex type r' (build_int_cst itype (if ovf then 1 else 0)))
      else None)"

text \<open>
  What the spec says an overflow-checked operation yields for an exact result \<open>v\<close>
  (the sum, difference or product of the operands on the mathematical integers): the pair
  of \<open>v\<close> truncated to the result width and the flag telling that \<open>v\<close> does not fit
  that width; and, for the trap-oriented variant, \<open>v\<close> when it fits and no constant
  when it does not.
\<close>

definition overflow_pair :: "tree_type \<Rightarrow> int \<Rightarrow> tree" where
  "overflow_pair itype v =
     COMPLEX_CST (COMPLEX_TYPE itype)
       (INTEGER_CST itype (wrap_value itype v) False)
       (INTEGER_CST itype (wrap_value itype (if fits_type itype v then 0 else 1)) False)"

definition trap_result :: "tree_type \<Rightarrow> int \<Rightarrow> tree option" where
  "trap_result itype v =
     (if fits_type itype v then Some (INTEGER_CST itype (wrap_value itype v) False) else None)"

subsection \<open>The string and memory oracle\<close>

text \<open>
  The host's \<^verbatim>\<open>strncmp\<close>, \<^verbatim>\<open>memcmp\<close> and \<^verbatim>\<open>memchr\<close>. A C string is the list of its
  bytes before the terminating NUL. C fixes the sign of a nonzero comparison result only;
  the model takes the difference of the first bytes that differ. \<^verbatim>\<open>memchr\<close> yields the
  offset of the byte found.
\<close>

fun strncmp :: "nat list \<Rightarrow> nat list \<Rightarrow> nat \<Rightarrow> int" where
  "strncmp xs ys 0 = 0"
| "strncmp [] [] (Suc n) = 0"
| "strncmp [] (y # ys) (Suc n) = - int y"
| "strncmp (x # xs) [] (Suc n) = int x"
| "strncmp (x # xs) (y # ys) (Suc n) = (if x = y then strncmp xs ys n else int x - int y)"

fun memcmp :: "nat list \<Rightarrow> nat list \<Rightarrow> nat \<Rightarrow> int" where
  "memcmp (x # xs) (y # ys) (Suc n) = (if x = y then memcmp xs ys n else int x - int y)"
| "memcmp xs ys n = 0"

fun memchr :: "nat list \<Rightarrow> nat \<Rightarrow> nat \<Rightarrow> nat option" where
  "memchr (x # xs) c (Suc n) = (if x = c then Some 0 else map_option Suc (memchr xs c n))"
| "memchr xs c n = None"

definition SIZE_MAX :: nat where
  "SIZE_MAX = 2 ^ 64 - 1"

definition fold_build_pointer_plus_hwi :: "tree \<Rightarrow> int \<Rightarrow> tree" where
  "fold_build_pointer_plus_hwi ptr off = POINTER_PLUS_EXPR (TREE_TYPE ptr) ptr off"

fun fold_convert_pointer :: "tree_type \<Rightarrow> tree \<Rightarrow> tree" where
  "fold_convert_pointer ty (POINTER_PLUS_EXPR ty0 ptr off) = POINTER_PLUS_EXPR ty ptr off"
| "fold_convert_pointer ty t = t"

datatype bounded_fn =
    CFN_BUILT_IN_STRNCMP | CFN_BUILT_IN_STRNCASECMP | CFN_BUILT_IN_MEMCMP | CFN_BUILT_IN_MEMCHR

text \<open>
  The three-operand \<^verbatim>\<open>fold_const_call\<close> at its bounded-length cases
  (\<^verbatim>\<open>CFN_BUILT_IN_BCMP\<close> shares the case of \<^verbatim>\<open>CFN_BUILT_IN_MEMCMP\<close>).
\<close>

fun fold_const_call_bounded ::
  "target \<Rightarrow> bounded_fn \<Rightarrow> tree_type \<Rightarrow> tree \<Rightarrow> tree \<Rightarrow> tree \<Rightarrow> tree option" where
  "fold_const_call_bounded tg CFN_BUILT_IN_STRNCMP type arg0 arg1 arg2 =
     (case size_t_cst_p tg arg2 of
        None \<Rightarrow> None
      | Some s2 \<Rightarrow>
          if s2 = 0 \<and> \<not> TREE_SIDE_EFFECTS arg0 \<and> \<not> TREE_SIDE_EFFECTS arg1
          then Some (build_int_cst type 0)
          else (case c_getstr arg0 of
                  None \<Rightarrow> None
                | Some p0 \<Rightarrow>
                    (case c_getstr arg1 of
                       None \<Rightarrow> None
                     | Some p1 \<Rightarrow>
                         Some (build_int_cst type (strncmp p0 p1 (min s2 SIZE_MAX))))))"
| "fold_const_call_bounded tg CFN_BUILT_IN_STRNCASECMP type arg0 arg1 arg2 =
     (case size_t_cst_p tg arg2 of
        None \<Rightarrow> None
      | Some s2 \<Rightarrow>
          if s2 = 0 \<and> \<not> TREE_SIDE_EFFECTS arg0 \<and> \<not> TREE_SIDE_EFFECTS arg1
          then Some (build_int_cst type 0)
          else (case c_getstr arg0 of
                  None \<Rightarrow> None
                | Some p0 \<Rightarrow>
                    (case c_getstr arg1 of
                       None \<Rightarrow> None
                     | Some p1 \<Rightarrow>
                         if strncmp p0 p1 (min s2 SIZE_MAX) = 0
                         then Some (build_int_cst type 0) else None)))"
| "fold_const_call_bounded tg CFN_BUILT_IN_MEMCMP type arg0 arg1 arg2 =
     (case size_t_cst_p tg arg2 of
        None \<Rightarrow> None
      | Some s2 \<Rightarrow>
          if s2 = 0 \<and> \<not> TREE_SIDE_EFFECTS arg0 \<and> \<not> TREE_SIDE_EFFECTS arg1
          then Some (build_int_cst type 0)
          else (case getbyterep arg0 of
                  None \<Rightarrow> None
                | Some p0 \<Rightarrow>
                    (case getbyterep arg1 of
                       None \<Rightarrow> None
                     | Some p1 \<Rightarrow>
                         if s2 \<le> length p0 \<and> s2 \<le> length p1
                         then Some (build_cmp_result type (memcmp p0 p1 s2)) else None)))"
| "fold_const_call_bounded tg CFN_BUILT_IN_MEMCHR type arg0 arg1 arg2 =
     (case size_t_cst_p tg arg2 of
        None \<Rightarrow> None
      | Some s2 \<Rightarrow>
          if s2 = 0 \<and> \<not> TREE_SIDE_EFFECTS arg0 \<and> \<not> TREE_SIDE_EFFECTS arg1
          then Some (build_int_cst type 0)
          else (case getbyterep arg0 of
                  None \<Rightarrow> None
                | Some p0 \<Rightarrow>
                    if s2 \<le> length p0
                    then (case target_char_cst_p arg1 of
                            None \<Rightarrow> None
                          | Some c \<Rightarrow>
                              (case memchr p0 c s2 of
                                 None \<Rightarrow> Some (build_int_cst type 0)
                               | Some off \<Rightarrow>
                                   Some (fold_convert_pointer type
                                           (fold_build_pointer_plus_hwi arg0 (int off)))))
                    else None))"

subsection \<open>Sample constants and a sample environment\<close>

text \<open>
  Concrete inputs at which the theorems below are instantiated: the IEEE double format,
  the default flags, a few constants, and an environment that holds what the backend and
  real.cc do on those constants (2 to the power 10 is 1024, exactly; 0 to the power -1 is
  an infinity; the complex exponential of 0 is 1; the first power of a value is the value,
  exactly, a NaN coming out quiet; every value used is representable, so rounding leaves it as it is). Elsewhere
  the sample backend returns NaN, which the gate rejects, and the sample integer power
  reports an inexact result, which suppresses the fold.
\<close>

definition ieee_double_format :: real_format where
  "ieee_double_format =
     \<lparr>fmt_b = 2, fmt_p = 53, fmt_pnan = 53, fmt_emin = - 1021, fmt_emax = 1024,
      fmt_round_towards_zero = False, fmt_has_inf = True, fmt_has_denorm = True\<rparr>"

definition default_flags :: flags where
  "default_flags =
     \<lparr>flag_rounding_math = False, flag_trapping_math = True, flag_errno_math = True,
      flag_signaling_nans = False, flag_unsafe_math_optimizations = False\<rparr>"

definition dconst10 :: real_value where
  "dconst10 = \<lparr>cl = rvc_normal, sign = False, signalling = False, uexp = 4, sig = 10 * 2 ^ 188\<rparr>"

definition dconst1024 :: real_value where
  "dconst1024 = \<lparr>cl = rvc_normal, sign = False, signalling = False, uexp = 11, sig = SIG_MSB\<rparr>"

definition sample_snan :: real_value where
  "sample_snan = \<lparr>cl = rvc_nan, sign = False, signalling = True, uexp = 0, sig = 2 ^ 189\<rparr>"

definition sample_mpfr_from_real :: "int \<Rightarrow> real_value \<Rightarrow> mpfr_t" where
  "sample_mpfr_from_real prec r =
     (case cl r of
        rvc_zero \<Rightarrow> MPFR_ZERO (sign r)
      | rvc_inf \<Rightarrow> MPFR_INF (sign r)
      | rvc_nan \<Rightarrow> MPFR_NAN
      | rvc_normal \<Rightarrow> MPFR_REGULAR (sign r) (sig r) (uexp r))"

fun sample_real_from_mpfr :: "mpfr_t \<Rightarrow> real_format \<Rightarrow> real_value" where
  "sample_real_from_mpfr MPFR_NAN f =
     \<lparr>cl = rvc_nan, sign = False, signalling = False, uexp = 0, sig = 0\<rparr>"
| "sample_real_from_mpfr (MPFR_INF s) f =
     \<lparr>cl = rvc_inf, sign = s, signalling = False, uexp = 0, sig = 0\<rparr>"
| "sample_real_from_mpfr (MPFR_ZERO s) f =
     \<lparr>cl = rvc_zero, sign = s, signalling = False, uexp = 0, sig = 0\<rparr>"
| "sample_real_from_mpfr (MPFR_REGULAR s m e) f =
     \<lparr>cl = rvc_normal, sign = s, signalling = False, uexp = e, sig = m\<rparr>"

definition no_mpfr_flags :: mpfr_flags where
  "no_mpfr_flags = \<lparr>mpfr_overflow_p = False, mpfr_underflow_p = False\<rparr>"

definition sample_mpfr_call :: "mpfr_func \<Rightarrow> int \<Rightarrow> mpfr_rnd_t \<Rightarrow> mpfr_t list \<Rightarrow> mpfr_result" where
  "sample_mpfr_call func prec rnd args =
     (if func = mpfr_pow \<and> args = [MPFR_REGULAR False SIG_MSB 2, MPFR_REGULAR False (10 * 2 ^ 188) 4]
      then \<lparr>res_value = MPFR_REGULAR False SIG_MSB 11, res_ternary = 0, res_flags = no_mpfr_flags\<rparr>
      else if func = mpfr_pow \<and> args = [MPFR_ZERO False, MPFR_REGULAR True SIG_MSB 1]
      then \<lparr>res_value = MPFR_INF False, res_ternary = 0, res_flags = no_mpfr_flags\<rparr>
      else \<lparr>res_value = MPFR_NAN, res_ternary = 0, res_flags = no_mpfr_flags\<rparr>)"

definition sample_mpc_call ::
  "mpc_func \<Rightarrow> int \<Rightarrow> mpc_rnd_t \<Rightarrow> (mpfr_t \<times> mpfr_t) \<Rightarrow> mpc_result" where
  "sample_mpc_call func prec rnd arg =
     (if func = mpc_exp \<and> arg = (MPFR_ZERO False, MPFR_ZERO False)
      then \<lparr>cres_real = MPFR_REGULAR False SIG_MSB 1, cres_imag = MPFR_ZERO False,
            cres_ternary = 0, cres_flags = no_mpfr_flags\<rparr>
      else \<lparr>cres_real = MPFR_NAN, cres_imag = MPFR_NAN, cres_ternary = 0,
            cres_flags = no_mpfr_flags\<rparr>)"

definition sample_real_powi :: "real_format \<Rightarrow> real_value \<Rightarrow> int \<Rightarrow> real_value \<times> bool" where
  "sample_real_powi f x n =
     (if n = 0 then (dconst1, False)
      else (if cl x = rvc_nan then x\<lparr>signalling := False\<rparr> else x, n \<noteq> 1))"

definition sample_env :: real_env where
  "sample_env =
     \<lparr>mpfr_call = sample_mpfr_call,
      mpc_call = sample_mpc_call,
      mpfr_from_real = sample_mpfr_from_real,
      real_from_mpfr = sample_real_from_mpfr,
      real_convert = (\<lambda>f r. r),
      real_floor = (\<lambda>f r. r),
      real_ceil = (\<lambda>f r. r),
      real_trunc = (\<lambda>f r. r),
      real_round = (\<lambda>f r. r),
      real_roundeven = (\<lambda>f r. r),
      real_powi = sample_real_powi,
      real_nextafter = (\<lambda>f x y. (x, False)),
      real_ldexp = (\<lambda>r n. if cl r = rvc_normal then r\<lparr>uexp := uexp r + n\<rparr> else r),
      real_value_truncate = (\<lambda>f r. r)\<rparr>"

text \<open>
  A sample target: leading-zero count is defined at zero for the plain integer types (as
  the bit width), trailing-zero count is not; size_t has 64 bits.
\<close>

definition sample_target :: target where
  "sample_target =
     \<lparr>CLZ_DEFINED_VALUE_AT_ZERO = (\<lambda>t. case t of INTEGER_TYPE p u \<Rightarrow> Some (int p) | _ \<Rightarrow> None),
      CTZ_DEFINED_VALUE_AT_ZERO = (\<lambda>t. None),
      size_type_node = INTEGER_TYPE 64 True\<rparr>"

text \<open>Sample operands: the types of 8-bit unsigned and signed integers, a zero of type size_t, and the type int.\<close>

definition uint8_type :: tree_type where
  "uint8_type = INTEGER_TYPE 8 True"

definition int8_type :: tree_type where
  "int8_type = INTEGER_TYPE 8 False"

definition sample_size_zero :: tree where
  "sample_size_zero = INTEGER_CST (INTEGER_TYPE 64 True) 0 False"

definition int_type_node :: tree_type where
  "int_type_node = INTEGER_TYPE 32 False"

section \<open>Properties\<close>

text \<open>
  C10. Folding copysign of two real constants always succeeds, whatever the environment,
  the numeric-safety flags and the format: there is no exactness gate, no flag check and
  no signaling-NaN rejection. The result is the first operand with its sign replaced by
  the sign of the second; value class, signalling bit, exponent and significand (the NaN
  payload) are those of the first operand.
\<close>

theorem copysign_always_folds:
  "fold_const_call_sss env fl CFN_COPYSIGN arg0 arg1 format = Some (arg0\<lparr>sign := sign arg1\<rparr>)
   \<and> (\<exists>r. fold_const_call_sss env fl CFN_COPYSIGN arg0 arg1 format = Some r
          \<and> sign r = sign arg1 \<and> cl r = cl arg0 \<and> signalling r = signalling arg0
          \<and> uexp r = uexp arg0 \<and> sig r = sig arg0)"
  by (simp add: real_copysign_def)

lemma do_compare_not_nan:
  "cl x \<noteq> rvc_nan \<Longrightarrow> cl y \<noteq> rvc_nan \<Longrightarrow> do_compare x y a = do_compare x y b"
  by (simp add: do_compare_def)

lemma do_compare_nan: "cl x = rvc_nan \<or> cl y = rvc_nan \<Longrightarrow> do_compare x y a = a"
  by (simp add: do_compare_def)

lemma real_compare_LT_not_GE: "real_compare LT_EXPR x y \<Longrightarrow> \<not> real_compare GE_EXPR x y"
  by (cases "cl x = rvc_nan \<or> cl y = rvc_nan")
     (use do_compare_not_nan [of x y 1 "- 1"] in \<open>auto simp: do_compare_nan\<close>)

lemma real_compare_LE_not_GT: "real_compare LE_EXPR x y \<Longrightarrow> \<not> real_compare GT_EXPR x y"
  by (cases "cl x = rvc_nan \<or> cl y = rvc_nan")
     (use do_compare_not_nan [of x y 1 "- 1"] in \<open>auto simp: do_compare_nan\<close>)

lemma real_compare_GT_not_LE: "real_compare GT_EXPR x y \<Longrightarrow> \<not> real_compare LE_EXPR x y"
  by (cases "cl x = rvc_nan \<or> cl y = rvc_nan")
     (use do_compare_not_nan [of x y 1 "- 1"] in \<open>auto simp: do_compare_nan\<close>)

lemma dconstm1_lt_dconst0: "real_compare LT_EXPR dconstm1 dconst0"
  by (simp add: do_compare_def dconstm1_def dconst0_def)
lemma dconst0_le_dconst0: "real_compare LE_EXPR dconst0 dconst0"
  by (simp add: do_compare_def dconst0_def)
lemma dconstm1_le_dconst0: "real_compare LE_EXPR dconstm1 dconst0"
  by (simp add: do_compare_def dconstm1_def dconst0_def)
lemma dconst2_gt_dconst1: "real_compare GT_EXPR dconst2 dconst1"
  by (simp add: do_compare_def dconst2_def dconst1_def)
lemma dconst0_lt_dconst1: "real_compare LT_EXPR dconst0 dconst1"
  by (simp add: do_compare_def dconst0_def dconst1_def)

text \<open>
  C2. The domain guards of the real evaluator reject an argument outside the domain
  without calling the backend, for every environment, flag setting and format: sqrt of an
  argument below 0; log, log2, log10, y0 and y1 of an argument at or below 0; log1p of an
  argument at or below -1; asin, acos and atanh of an argument below -1 or above 1; acosh
  of an argument below 1. In particular sqrt(-1), log(0), log(-1), asin(2) and acosh(0)
  are not folded.
\<close>

theorem domain_guards_reject:
  "(real_compare LT_EXPR arg dconst0 \<longrightarrow> fold_const_call_ss env fl CFN_SQRT arg format = None)
   \<and> (real_compare LE_EXPR arg dconst0 \<longrightarrow>
        fold_const_call_ss env fl CFN_LOG arg format = None
        \<and> fold_const_call_ss env fl CFN_LOG2 arg format = None
        \<and> fold_const_call_ss env fl CFN_LOG10 arg format = None
        \<and> fold_const_call_ss env fl CFN_Y0 arg format = None
        \<and> fold_const_call_ss env fl CFN_Y1 arg format = None)
   \<and> (real_compare LE_EXPR arg dconstm1 \<longrightarrow>
        fold_const_call_ss env fl CFN_LOG1P arg format = None)
   \<and> (real_compare LT_EXPR arg dconstm1 \<or> real_compare GT_EXPR arg dconst1 \<longrightarrow>
        fold_const_call_ss env fl CFN_ASIN arg format = None
        \<and> fold_const_call_ss env fl CFN_ACOS arg format = None
        \<and> fold_const_call_ss env fl CFN_ATANH arg format = None)
   \<and> (real_compare LT_EXPR arg dconst1 \<longrightarrow>
        fold_const_call_ss env fl CFN_ACOSH arg format = None)
   \<and> fold_const_call_ss env fl CFN_SQRT dconstm1 format = None
   \<and> fold_const_call_ss env fl CFN_LOG dconst0 format = None
   \<and> fold_const_call_ss env fl CFN_LOG dconstm1 format = None
   \<and> fold_const_call_ss env fl CFN_ASIN dconst2 format = None
   \<and> fold_const_call_ss env fl CFN_ACOSH dconst0 format = None"
  using real_compare_LT_not_GE [of arg] real_compare_LE_not_GT [of arg]
    real_compare_GT_not_LE [of arg dconst1]
    real_compare_LT_not_GE [OF dconstm1_lt_dconst0] real_compare_LE_not_GT [OF dconst0_le_dconst0]
    real_compare_LE_not_GT [OF dconstm1_le_dconst0] real_compare_GT_not_LE [OF dconst2_gt_dconst1]
    real_compare_LT_not_GE [OF dconst0_lt_dconst1]
  by (auto simp del: real_compare.simps)

theorem domain_guards_reject_witness:
  "fold_const_call_ss sample_env default_flags CFN_SQRT dconstm1 ieee_double_format = None
   \<and> fold_const_call_ss sample_env default_flags CFN_LOG dconst0 ieee_double_format = None
   \<and> fold_const_call_ss sample_env default_flags CFN_LOG1P dconstm1 ieee_double_format = None
   \<and> fold_const_call_ss sample_env default_flags CFN_ASIN dconst2 ieee_double_format = None
   \<and> fold_const_call_ss sample_env default_flags CFN_ACOSH dconst0 ieee_double_format = None"
  using domain_guards_reject [of dconstm1 sample_env default_flags ieee_double_format]
    domain_guards_reject [of dconst0 sample_env default_flags ieee_double_format]
    domain_guards_reject [of dconst2 sample_env default_flags ieee_double_format]
  by (simp add: do_compare_def dconstm1_def dconst0_def dconst1_def dconst2_def)

text \<open>
  C7. floor, ceil, trunc, round and roundeven fold if and only if the argument is not a
  signaling NaN. logb and significand return a NaN argument unchanged (class, sign,
  signalling bit and payload); logb of an infinity is the infinity with its sign cleared,
  significand returns an infinity or a zero unchanged. Hence for these seven functions a
  signaling NaN argument either fails to fold or is returned as it is.
\<close>

theorem rounding_fails_only_on_snan:
  "(fn \<in> {CFN_FLOOR, CFN_CEIL, CFN_TRUNC, CFN_ROUND, CFN_ROUNDEVEN} \<longrightarrow>
      (fold_const_call_ss env fl fn arg format \<noteq> None) = (\<not> real_issignaling_nan arg))
   \<and> (real_isnan arg \<longrightarrow>
        fold_const_call_ss env fl CFN_LOGB arg format = Some arg
        \<and> fold_const_call_ss env fl CFN_SIGNIFICAND arg format = Some arg)
   \<and> (real_isinf arg \<longrightarrow>
        fold_const_call_ss env fl CFN_LOGB arg format = Some (arg\<lparr>sign := False\<rparr>)
        \<and> fold_const_call_ss env fl CFN_SIGNIFICAND arg format = Some arg)
   \<and> (cl arg = rvc_zero \<longrightarrow>
        fold_const_call_ss env fl CFN_SIGNIFICAND arg format = Some arg)
   \<and> (fn \<in> {CFN_FLOOR, CFN_CEIL, CFN_TRUNC, CFN_ROUND, CFN_ROUNDEVEN, CFN_LOGB, CFN_SIGNIFICAND}
        \<and> real_issignaling_nan arg
        \<and> fold_const_call_ss env fl fn arg format = Some r \<longrightarrow> r = arg)"
  by (auto simp: fold_const_logb_def fold_const_significand_def real_isnan_def real_isinf_def
      real_issignaling_nan_def)

theorem rounding_fails_only_on_snan_witness:
  "fold_const_call_ss sample_env default_flags CFN_FLOOR sample_snan ieee_double_format = None
   \<and> fold_const_call_ss sample_env default_flags CFN_FLOOR dconst1 ieee_double_format \<noteq> None
   \<and> fold_const_call_ss sample_env default_flags CFN_LOGB sample_snan ieee_double_format
       = Some sample_snan
   \<and> fold_const_call_ss sample_env default_flags CFN_SIGNIFICAND sample_snan ieee_double_format
       = Some sample_snan
   \<and> fold_const_call_ss sample_env default_flags CFN_LOGB (dconstinf\<lparr>sign := True\<rparr>)
       ieee_double_format = Some dconstinf
   \<and> fold_const_call_ss sample_env default_flags CFN_SIGNIFICAND dconst0 ieee_double_format
       = Some dconst0"
  using rounding_fails_only_on_snan [of CFN_FLOOR sample_env default_flags sample_snan
      ieee_double_format sample_snan]
    rounding_fails_only_on_snan [of CFN_FLOOR sample_env default_flags dconst1
      ieee_double_format dconst1]
    rounding_fails_only_on_snan [of CFN_LOGB sample_env default_flags "dconstinf\<lparr>sign := True\<rparr>"
      ieee_double_format dconstinf]
    rounding_fails_only_on_snan [of CFN_SIGNIFICAND sample_env default_flags dconst0
      ieee_double_format dconst0]
  by (simp add: sample_snan_def dconst1_def dconstinf_def dconst0_def real_isnan_def
      real_isinf_def real_issignaling_nan_def)

lemma sint32_small: "0 \<le> k \<Longrightarrow> k < 2 ^ 31 \<Longrightarrow> sint (word_of_int k :: 32 word) = k"
  by (simp add: sint_sbintrunc' signed_take_bit_int_eq_self)

text \<open>
  C5. For a format whose doubled exponent range fits the C \<^verbatim>\<open>int\<close> that holds it,
  ldexp (and scalbn, scalbln) of any real constant \<open>x\<close> and integer constant \<open>n\<close> fails
  to fold whenever the magnitude of \<open>n\<close> exceeds twice the exponent range; the fold is
  rejected as well when signaling NaNs are honored, unsafe-math is off and \<open>x\<close> is a
  signaling NaN, when the shifted value is an infinity, and when truncating the shifted
  value to the format changes it. These are the only rejections of the handler, the
  magnitude test rejecting a magnitude equal to twice the range too.
\<close>

theorem load_exponent_rejections:
  assumes fits: "2 * \<bar>fmt_emax format - fmt_emin format\<bar> < 2 ^ 31"
  shows "(fold_const_builtin_load_exponent env fl x n format = None) =
           (\<bar>n\<bar> \<ge> 2 * \<bar>fmt_emax format - fmt_emin format\<bar>
            \<or> (\<not> flag_unsafe_math_optimizations fl \<and> flag_signaling_nans fl
                \<and> real_issignaling_nan x)
            \<or> real_isinf (real_ldexp env x n)
            \<or> \<not> real_equal (real_ldexp env x n)
                  (real_value_truncate env format (real_ldexp env x n)))
         \<and> (\<bar>n\<bar> > 2 * \<bar>fmt_emax format - fmt_emin format\<bar> \<longrightarrow>
              fold_const_call_sss_real_int env fl CFN_LDEXP x n format = None
              \<and> fold_const_call_sss_real_int env fl CFN_SCALBN x n format = None
              \<and> fold_const_call_sss_real_int env fl CFN_SCALBLN x n format = None)
         \<and> (fold_const_builtin_load_exponent env fl x n format = None \<longrightarrow>
              fold_const_call_sss_real_int env fl CFN_LDEXP x n format = None
              \<and> fold_const_call_sss_real_int env fl CFN_SCALBN x n format = None
              \<and> fold_const_call_sss_real_int env fl CFN_SCALBLN x n format = None)"
proof -
  have m: "sint (word_of_int (2 * \<bar>fmt_emax format - fmt_emin format\<bar>) :: 32 word)
           = 2 * \<bar>fmt_emax format - fmt_emin format\<bar>"
    using fits by (intro sint32_small) auto
  have bound: "(n \<le> - (2 * \<bar>fmt_emax format - fmt_emin format\<bar>)
                \<or> n \<ge> 2 * \<bar>fmt_emax format - fmt_emin format\<bar>)
               = (\<bar>n\<bar> \<ge> 2 * \<bar>fmt_emax format - fmt_emin format\<bar>)"
    by linarith
  have main: "(fold_const_builtin_load_exponent env fl x n format = None) =
           (\<bar>n\<bar> \<ge> 2 * \<bar>fmt_emax format - fmt_emin format\<bar>
            \<or> (\<not> flag_unsafe_math_optimizations fl \<and> flag_signaling_nans fl
                \<and> real_issignaling_nan x)
            \<or> real_isinf (real_ldexp env x n)
            \<or> \<not> real_equal (real_ldexp env x n)
                  (real_value_truncate env format (real_ldexp env x n)))"
    unfolding fold_const_builtin_load_exponent_def Let_def m bound [symmetric]
    by auto
  show ?thesis using main by auto
qed

theorem load_exponent_rejections_witness:
  "fold_const_builtin_load_exponent sample_env default_flags dconst1 4091 ieee_double_format = None
   \<and> fold_const_call_sss_real_int sample_env default_flags CFN_SCALBN dconst1 (- 5000)
        ieee_double_format = None
   \<and> fold_const_builtin_load_exponent sample_env default_flags dconst1 10 ieee_double_format
        = Some dconst1024
   \<and> fold_const_builtin_load_exponent sample_env (default_flags\<lparr>flag_signaling_nans := True\<rparr>)
        sample_snan 1 ieee_double_format = None"
  using load_exponent_rejections [of ieee_double_format sample_env default_flags dconst1 4091]
    load_exponent_rejections [of ieee_double_format sample_env default_flags dconst1 "- 5000"]
    load_exponent_rejections [of ieee_double_format sample_env default_flags dconst1 10]
    load_exponent_rejections [of ieee_double_format sample_env
      "default_flags\<lparr>flag_signaling_nans := True\<rparr>" sample_snan 1]
  by (simp add: ieee_double_format_def default_flags_def sample_env_def dconst1_def
      dconst1024_def sample_snan_def real_issignaling_nan_def real_isnan_def real_isinf_def
      real_equal_def do_compare_def fold_const_builtin_load_exponent_def)

lemma real_identical_cl: "real_identical x y \<Longrightarrow> cl x = cl y"
  by (simp add: real_identical_def split: if_splits)

lemma real_identical_isfinite: "real_identical x y \<Longrightarrow> real_isfinite y \<Longrightarrow> real_isfinite x"
  by (simp add: real_isfinite_def real_identical_cl)

lemma do_mpfr_ckconv_Some:
  assumes "do_mpfr_ckconv env fl st m inexact format = Some r"
  shows "mpfr_number_p m \<and> \<not> mpfr_overflow_p st \<and> \<not> mpfr_underflow_p st
         \<and> \<not> (flag_rounding_math fl \<and> inexact)
         \<and> real_isfinite (real_from_mpfr env m format)
         \<and> (cl (real_from_mpfr env m format) = rvc_zero) = mpfr_zero_p m
         \<and> r = real_convert env format (real_from_mpfr env m format)
         \<and> real_identical r (real_from_mpfr env m format)
         \<and> real_isfinite r"
  using assms
  by (auto simp: do_mpfr_ckconv_def Let_def real_identical_isfinite split: if_splits)

lemma do_mpc_ckconv_Some:
  assumes "do_mpc_ckconv env fl st (mr, mi) inexact format = Some (rr, ri)"
  shows "mpfr_number_p mr \<and> mpfr_number_p mi
         \<and> \<not> mpfr_overflow_p st \<and> \<not> mpfr_underflow_p st
         \<and> \<not> (flag_rounding_math fl \<and> inexact)
         \<and> real_isfinite (real_from_mpfr env mr format)
         \<and> real_isfinite (real_from_mpfr env mi format)
         \<and> (cl (real_from_mpfr env mr format) = rvc_zero) = mpfr_zero_p mr
         \<and> (cl (real_from_mpfr env mi format) = rvc_zero) = mpfr_zero_p mi
         \<and> rr = real_convert env format (real_from_mpfr env mr format)
         \<and> ri = real_convert env format (real_from_mpfr env mi format)
         \<and> real_identical rr (real_from_mpfr env mr format)
         \<and> real_identical ri (real_from_mpfr env mi format)
         \<and> real_isfinite rr \<and> real_isfinite ri"
  using assms
  by (auto simp: do_mpc_ckconv_def Let_def real_identical_isfinite split: if_splits)

text \<open>
  C1 (as amended). Every real result, and each component of every complex result, that
  the exactness gate accepts round-trips: the gate succeeds only if the working-precision
  value is an ordinary number (neither NaN nor an infinity), no overflow or underflow flag
  is raised, the result is exact when rounding-math is on, the conversion to the target
  format is finite and agrees with the working-precision value on being zero, and
  converting the accepted value to the format again reproduces it bit for bit. Hence
  every real or complex constant folded through the gate (by \<^verbatim>\<open>do_mpfr_arg1\<close>,
  \<^verbatim>\<open>do_mpfr_arg2\<close>, \<^verbatim>\<open>do_mpc_arg1\<close>) is finite.
\<close>

theorem exactness_gate_round_trip:
  "(do_mpfr_ckconv env fl st m inexact format = Some r \<longrightarrow>
      mpfr_number_p m \<and> \<not> mpfr_overflow_p st \<and> \<not> mpfr_underflow_p st
      \<and> \<not> (flag_rounding_math fl \<and> inexact)
      \<and> real_isfinite (real_from_mpfr env m format)
      \<and> (cl (real_from_mpfr env m format) = rvc_zero) = mpfr_zero_p m
      \<and> r = real_convert env format (real_from_mpfr env m format)
      \<and> real_identical r (real_from_mpfr env m format)
      \<and> real_isfinite r)
   \<and> (do_mpc_ckconv env fl st (mr, mi) inexact format = Some (rr, ri) \<longrightarrow>
      mpfr_number_p mr \<and> mpfr_number_p mi
      \<and> \<not> mpfr_overflow_p st \<and> \<not> mpfr_underflow_p st
      \<and> \<not> (flag_rounding_math fl \<and> inexact)
      \<and> real_isfinite (real_from_mpfr env mr format)
      \<and> real_isfinite (real_from_mpfr env mi format)
      \<and> (cl (real_from_mpfr env mr format) = rvc_zero) = mpfr_zero_p mr
      \<and> (cl (real_from_mpfr env mi format) = rvc_zero) = mpfr_zero_p mi
      \<and> rr = real_convert env format (real_from_mpfr env mr format)
      \<and> ri = real_convert env format (real_from_mpfr env mi format)
      \<and> real_identical rr (real_from_mpfr env mr format)
      \<and> real_identical ri (real_from_mpfr env mi format)
      \<and> real_isfinite rr \<and> real_isfinite ri)
   \<and> (do_mpfr_arg1 env fl func arg format = Some r1 \<longrightarrow> real_isfinite r1)
   \<and> (do_mpfr_arg2 env fl func arg0 arg1 format = Some r2 \<longrightarrow> real_isfinite r2)
   \<and> (do_mpc_arg1 env fl cfunc arg_real arg_imag format = Some (r3, r4) \<longrightarrow>
        real_isfinite r3 \<and> real_isfinite r4)"
proof (intro conjI impI)
  assume a: "do_mpfr_arg1 env fl func arg format = Some r1"
  then show "real_isfinite r1"
    by (auto simp: do_mpfr_arg1_def Let_def split: if_splits dest: do_mpfr_ckconv_Some)
next
  assume a: "do_mpfr_arg2 env fl func arg0 arg1 format = Some r2"
  then show "real_isfinite r2"
    by (auto simp: do_mpfr_arg2_def Let_def split: if_splits dest: do_mpfr_ckconv_Some)
next
  assume a: "do_mpc_arg1 env fl cfunc arg_real arg_imag format = Some (r3, r4)"
  then show "real_isfinite r3" "real_isfinite r4"
    by (auto simp: do_mpc_arg1_def Let_def split: if_splits dest: do_mpc_ckconv_Some)
qed (use do_mpfr_ckconv_Some [of env fl st m inexact format r]
      do_mpc_ckconv_Some [of env fl st mr mi inexact format rr ri] in blast)+

theorem exactness_gate_round_trip_witness:
  "do_mpfr_ckconv sample_env default_flags no_mpfr_flags (MPFR_REGULAR False SIG_MSB 11) False
      ieee_double_format = Some dconst1024
   \<and> real_identical dconst1024
        (real_from_mpfr sample_env (MPFR_REGULAR False SIG_MSB 11) ieee_double_format)
   \<and> real_isfinite dconst1024
   \<and> do_mpc_ckconv sample_env default_flags no_mpfr_flags
        (MPFR_REGULAR False SIG_MSB 1, MPFR_ZERO False) False ieee_double_format
      = Some (dconst1, dconst0)
   \<and> do_mpfr_arg2 sample_env default_flags mpfr_pow dconst2 dconst10 ieee_double_format
      = Some dconst1024
   \<and> do_mpc_arg1 sample_env default_flags mpc_exp dconst0 dconst0 ieee_double_format
      = Some (dconst1, dconst0)"
  using exactness_gate_round_trip [of sample_env default_flags no_mpfr_flags
      "MPFR_REGULAR False SIG_MSB 11" False ieee_double_format dconst1024
      "MPFR_REGULAR False SIG_MSB 1" "MPFR_ZERO False" dconst1 dconst0
      mpfr_pow dconst2 dconst1024 dconst2 dconst10 dconst1024
      mpc_exp dconst0 dconst0 dconst1 dconst0]
  by (simp add: do_mpfr_ckconv_def do_mpc_ckconv_def do_mpfr_arg2_def do_mpc_arg1_def
      sample_env_def default_flags_def no_mpfr_flags_def ieee_double_format_def
      dconst1024_def dconst1_def dconst0_def dconst2_def dconst10_def
      real_isfinite_def real_identical_def sample_mpfr_from_real_def sample_mpfr_call_def
      sample_mpc_call_def SIG_MSB_def SIGNIFICAND_BITS_def)

text \<open>
  C1 as stated also says that every folded real or complex constant is finite. The
  closed-form handlers do not pass through the gate: cproj of an infinity folds to an
  infinity, logb of an infinity folds to an infinity, and significand of a NaN folds to
  the NaN.
\<close>

theorem folded_constant_not_finite_counterexample:
  "fold_const_call_cc sample_env default_flags CFN_CPROJ dconstinf dconst0 ieee_double_format
     = Some (dconstinf, dconst0)
   \<and> \<not> real_isfinite dconstinf
   \<and> fold_const_call_ss sample_env default_flags CFN_LOGB dconstinf ieee_double_format
     = Some dconstinf
   \<and> fold_const_call_ss sample_env default_flags CFN_SIGNIFICAND sample_snan ieee_double_format
     = Some sample_snan
   \<and> \<not> real_isfinite sample_snan"
  by (simp add: real_isinf_def real_isfinite_def dconstinf_def dconst0_def sample_snan_def
      fold_const_logb_def fold_const_significand_def)

lemma fold_const_pow_fallback:
  assumes "do_mpfr_arg2 env fl mpfr_pow arg0 arg1 format = None"
  shows "fold_const_pow env fl arg0 arg1 format =
           (if pow_fallback_entry env fl arg0 arg1
               \<and> (flag_unsafe_math_optimizations fl
                  \<or> (\<not> snd (real_powi env format arg0 (real_to_integer arg1))
                      \<and> \<not> (flag_signaling_nans fl \<and> real_issignaling_nan arg0)))
            then Some (fst (real_powi env format arg0 (real_to_integer arg1)))
            else None)"
  using assms
  by (simp add: fold_const_pow_def pow_fallback_entry_def Let_def split_beta)

text \<open>
  C3 (as amended). When the generic evaluation of pow fails and the entry conditions of
  the integer-power fallback hold, the computed integer power is suppressed (pow is not
  folded) exactly when unsafe-math-optimizations is off and either the integer-power
  computation was inexact, or signaling NaNs are honored and the base is a signaling NaN;
  with unsafe-math-optimizations on the fold always goes ahead. A fold that goes ahead
  yields the integer power.
\<close>

theorem pow_fallback_suppression:
  assumes "do_mpfr_arg2 env fl mpfr_pow arg0 arg1 format = None"
      and "real_identical arg1 (real_from_integer env None (real_to_integer arg1))"
      and "real_to_integer arg1 > 0
           \<or> (\<not> flag_trapping_math fl \<and> \<not> flag_errno_math fl)
           \<or> \<not> real_equal arg0 dconst0"
  shows "(fold_const_pow env fl arg0 arg1 format = None) =
           (\<not> flag_unsafe_math_optimizations fl
            \<and> (snd (real_powi env format arg0 (real_to_integer arg1))
               \<or> (flag_signaling_nans fl \<and> real_issignaling_nan arg0)))
         \<and> (fold_const_pow env fl arg0 arg1 format \<noteq> None \<longrightarrow>
              fold_const_pow env fl arg0 arg1 format
                = Some (fst (real_powi env format arg0 (real_to_integer arg1))))"
  using assms fold_const_pow_fallback [OF assms(1)]
  by (auto simp: pow_fallback_entry_def)

lemma real_to_integer_dconst1: "real_to_integer dconst1 = 1"
  by (simp add: real_to_integer_def dconst1_def SIG_MSB_def SIGNIFICAND_BITS_def
      HOST_BITS_PER_WIDE_INT_def)

lemma real_from_integer_1: "real_from_integer env None 1 = dconst1"
  by (simp add: real_from_integer_def dconst1_def SIG_MSB_def SIGNIFICAND_BITS_def bitlen.simps)

lemma real_to_integer_dconstm1: "real_to_integer dconstm1 = - 1"
  by (simp add: real_to_integer_def dconstm1_def SIG_MSB_def SIGNIFICAND_BITS_def
      HOST_BITS_PER_WIDE_INT_def)

lemma real_to_integer_dconst10: "real_to_integer dconst10 = 10"
  by (simp add: real_to_integer_def dconst10_def SIGNIFICAND_BITS_def
      HOST_BITS_PER_WIDE_INT_def)

lemma real_from_integer_10: "real_from_integer env None 10 = dconst10"
  by (simp add: real_from_integer_def dconst10_def SIGNIFICAND_BITS_def bitlen.simps)

lemma snan_not_finite: "do_mpfr_arg2 env fl func sample_snan y format = None"
  by (simp add: do_mpfr_arg2_def real_isfinite_def sample_snan_def)

lemma snan_is_snan: "real_issignaling_nan sample_snan"
  by (simp add: real_issignaling_nan_def real_isnan_def sample_snan_def)

lemma snan_is_nan: "cl sample_snan = rvc_nan"
  by (simp add: sample_snan_def)

lemma one_identical: "real_identical dconst1 dconst1"
  by (simp add: real_identical_def dconst1_def)

lemma sample_powi_1:
  "real_powi sample_env format x 1 = (if cl x = rvc_nan then x\<lparr>signalling := False\<rparr> else x, False)"
  by (simp add: sample_env_def sample_real_powi_def)

theorem pow_fallback_suppression_witness:
  "fold_const_pow sample_env (default_flags\<lparr>flag_signaling_nans := True\<rparr>) sample_snan dconst1
      ieee_double_format = None
   \<and> fold_const_pow sample_env default_flags sample_snan dconst1 ieee_double_format
      = Some (sample_snan\<lparr>signalling := False\<rparr>)"
  using pow_fallback_suppression [of sample_env "default_flags\<lparr>flag_signaling_nans := True\<rparr>"
      sample_snan dconst1 ieee_double_format]
    pow_fallback_suppression [of sample_env default_flags sample_snan dconst1 ieee_double_format]
  by (simp add: snan_not_finite real_to_integer_dconst1 real_from_integer_1 one_identical
      snan_is_snan snan_is_nan sample_powi_1 default_flags_def)

text \<open>
  C3 as stated needs all three of: signaling NaNs honored, inexact, signaling-NaN base.
  The first power of a signaling NaN is computed exactly, the entry conditions hold, and
  with signaling NaNs honored the fold is suppressed all the same.
\<close>

theorem pow_fallback_suppression_counterexample:
  "do_mpfr_arg2 sample_env (default_flags\<lparr>flag_signaling_nans := True\<rparr>) mpfr_pow sample_snan
      dconst1 ieee_double_format = None
   \<and> real_identical dconst1 (real_from_integer sample_env None (real_to_integer dconst1))
   \<and> real_to_integer dconst1 > 0
   \<and> flag_signaling_nans (default_flags\<lparr>flag_signaling_nans := True\<rparr>)
   \<and> real_issignaling_nan sample_snan
   \<and> \<not> snd (real_powi sample_env ieee_double_format sample_snan (real_to_integer dconst1))
   \<and> fold_const_pow sample_env (default_flags\<lparr>flag_signaling_nans := True\<rparr>) sample_snan
        dconst1 ieee_double_format = None"
  using fold_const_pow_fallback [OF snan_not_finite, of sample_env
      "default_flags\<lparr>flag_signaling_nans := True\<rparr>" dconst1 ieee_double_format]
  by (simp add: snan_not_finite real_to_integer_dconst1 real_from_integer_1 one_identical snan_is_snan sample_powi_1
      default_flags_def)

text \<open>
  C9. When the generic evaluation of pow(x, y) fails, the integer-power fallback is
  entered only if y is an exact integer n and n is positive, or neither trapping-math nor
  errno-math is on, or x is not zero: otherwise pow is not folded. Consequently
  pow(0.0, -1) is not folded while trapping-math or errno-math is on (the backend giving
  no ordinary number for it, MPFR giving an infinity). And pow(2.0, 10) folds to exactly
  1024.0 in a binary format that holds 1024, by the generic path when the backend
  computes the power exactly, and else by the fallback when \<^verbatim>\<open>real_powi\<close> does.
\<close>

theorem pow_fallback_guard:
  "(do_mpfr_arg2 env fl mpfr_pow x y format = None
      \<and> \<not> (real_identical y (real_from_integer env None (real_to_integer y))
            \<and> (real_to_integer y > 0
                \<or> (\<not> flag_trapping_math fl \<and> \<not> flag_errno_math fl)
                \<or> \<not> real_equal x dconst0))
      \<longrightarrow> fold_const_pow env fl x y format = None)
   \<and> (do_mpfr_arg2 env fl mpfr_pow x y format = Some r \<longrightarrow>
        fold_const_pow env fl x y format = Some r)
   \<and> ((flag_trapping_math fl \<or> flag_errno_math fl)
       \<and> \<not> mpfr_number_p (res_value (mpfr_call env mpfr_pow (fmt_p format)
               (if fmt_round_towards_zero format then MPFR_RNDZ else MPFR_RNDN)
               [mpfr_from_real env (fmt_p format) dconst0,
                mpfr_from_real env (fmt_p format) dconstm1]))
      \<longrightarrow> fold_const_pow env fl dconst0 dconstm1 format = None)
   \<and> (fmt_b format = 2
       \<and> mpfr_call env mpfr_pow (fmt_p format)
            (if fmt_round_towards_zero format then MPFR_RNDZ else MPFR_RNDN)
            [mpfr_from_real env (fmt_p format) dconst2,
             mpfr_from_real env (fmt_p format) dconst10]
          = \<lparr>res_value = m, res_ternary = 0, res_flags = no_mpfr_flags\<rparr>
       \<and> mpfr_number_p m \<and> \<not> mpfr_zero_p m
       \<and> real_from_mpfr env m format = dconst1024
       \<and> real_convert env format dconst1024 = dconst1024
      \<longrightarrow> fold_const_pow env fl dconst2 dconst10 format = Some dconst1024)
   \<and> (do_mpfr_arg2 env fl mpfr_pow dconst2 dconst10 format = None
       \<and> real_powi env format dconst2 10 = (dconst1024, False)
      \<longrightarrow> fold_const_pow env fl dconst2 dconst10 format = Some dconst1024)"
proof (intro conjI impI)
  assume a: "do_mpfr_arg2 env fl mpfr_pow dconst2 dconst10 format = None
       \<and> real_powi env format dconst2 10 = (dconst1024, False)"
  have "real_identical dconst10 dconst10" "\<not> real_issignaling_nan dconst2"
    by (simp_all add: real_identical_def dconst10_def real_issignaling_nan_def real_isnan_def
        dconst2_def)
  then show "fold_const_pow env fl dconst2 dconst10 format = Some dconst1024"
    using a fold_const_pow_fallback [of env fl dconst2 dconst10 format]
    by (simp add: pow_fallback_entry_def real_to_integer_dconst10 real_from_integer_10)
next
  assume "do_mpfr_arg2 env fl mpfr_pow x y format = None
      \<and> \<not> (real_identical y (real_from_integer env None (real_to_integer y))
            \<and> (real_to_integer y > 0
                \<or> (\<not> flag_trapping_math fl \<and> \<not> flag_errno_math fl)
                \<or> \<not> real_equal x dconst0))"
  then show "fold_const_pow env fl x y format = None"
    using fold_const_pow_fallback [of env fl x y format]
    by (simp add: pow_fallback_entry_def)
next
  assume "do_mpfr_arg2 env fl mpfr_pow x y format = Some r"
  then show "fold_const_pow env fl x y format = Some r"
    by (simp add: fold_const_pow_def)
next
  assume a: "(flag_trapping_math fl \<or> flag_errno_math fl)
       \<and> \<not> mpfr_number_p (res_value (mpfr_call env mpfr_pow (fmt_p format)
               (if fmt_round_towards_zero format then MPFR_RNDZ else MPFR_RNDN)
               [mpfr_from_real env (fmt_p format) dconst0,
                mpfr_from_real env (fmt_p format) dconstm1]))"
  then have g: "do_mpfr_arg2 env fl mpfr_pow dconst0 dconstm1 format = None"
    by (simp add: do_mpfr_arg2_def do_mpfr_ckconv_def Let_def)
  have z: "real_equal dconst0 dconst0"
    by (simp add: real_equal_def do_compare_def dconst0_def)
  show "fold_const_pow env fl dconst0 dconstm1 format = None"
    using fold_const_pow_fallback [OF g] a z
    by (auto simp: pow_fallback_entry_def real_to_integer_dconstm1)
next
  assume a: "fmt_b format = 2
       \<and> mpfr_call env mpfr_pow (fmt_p format)
            (if fmt_round_towards_zero format then MPFR_RNDZ else MPFR_RNDN)
            [mpfr_from_real env (fmt_p format) dconst2,
             mpfr_from_real env (fmt_p format) dconst10]
          = \<lparr>res_value = m, res_ternary = 0, res_flags = no_mpfr_flags\<rparr>
       \<and> mpfr_number_p m \<and> \<not> mpfr_zero_p m
       \<and> real_from_mpfr env m format = dconst1024
       \<and> real_convert env format dconst1024 = dconst1024"
  have fin: "real_isfinite dconst2" "real_isfinite dconst10" "real_isfinite dconst1024"
    "cl dconst1024 \<noteq> rvc_zero" "real_identical dconst1024 dconst1024"
    by (simp_all add: real_isfinite_def dconst2_def dconst10_def dconst1024_def
        real_identical_def)
  have "do_mpfr_arg2 env fl mpfr_pow dconst2 dconst10 format = Some dconst1024"
    using a fin
    by (simp add: do_mpfr_arg2_def do_mpfr_ckconv_def Let_def no_mpfr_flags_def)
  then show "fold_const_pow env fl dconst2 dconst10 format = Some dconst1024"
    by (simp add: fold_const_pow_def)
qed

theorem pow_fallback_guard_witness:
  "fold_const_pow sample_env default_flags dconst0 dconstm1 ieee_double_format = None
   \<and> fold_const_pow sample_env default_flags dconst2 dconst10 ieee_double_format
      = Some dconst1024"
  using pow_fallback_guard [of sample_env default_flags dconst0 dconstm1 ieee_double_format
      dconst0 "MPFR_REGULAR False SIG_MSB 11"]
  by (simp add: sample_env_def default_flags_def ieee_double_format_def
      sample_mpfr_from_real_def sample_mpfr_call_def dconst0_def dconstm1_def dconst2_def
      dconst10_def dconst1024_def SIG_MSB_def SIGNIFICAND_BITS_def)

lemma bitlen_bounds: "n \<noteq> 0 \<Longrightarrow> 2 ^ (bitlen n - 1) \<le> n \<and> n < 2 ^ bitlen n \<and> bitlen n > 0"
proof (induction n rule: bitlen.induct)
  case (1 n)
  show ?case
  proof (cases "n div 2 = 0")
    case True
    with 1 have "n = 1" by auto
    then show ?thesis by (simp add: bitlen.simps)
  next
    case False
    with 1 have IH: "2 ^ (bitlen (n div 2) - 1) \<le> n div 2" "n div 2 < 2 ^ bitlen (n div 2)"
      "bitlen (n div 2) > 0" by auto
    have b: "bitlen n = Suc (bitlen (n div 2))" using 1(2) by (simp add: bitlen.simps)
    from IH(3) obtain k where k: "bitlen (n div 2) = Suc k" by (cases "bitlen (n div 2)") auto
    from IH(1) k have "2 * 2 ^ k \<le> 2 * (n div 2)" by simp
    then have lo: "2 ^ (bitlen n - 1) \<le> n" using b k by simp
    from IH(2) have "n < 2 * 2 ^ bitlen (n div 2)" by linarith
    then show ?thesis using lo b by simp
  qed
qed

lemma bitlen_le: "n < 2 ^ p \<Longrightarrow> bitlen n \<le> p"
proof (cases "n = 0")
  case True then show ?thesis by (simp add: bitlen.simps)
next
  case False
  assume "n < 2 ^ p"
  with bitlen_bounds [OF False] have "(2::nat) ^ (bitlen n - 1) < 2 ^ p" by linarith
  then have "bitlen n - 1 < p" by (simp add: power_strict_increasing_iff)
  then show ?thesis by linarith
qed

lemma ctz_nat_dvd: "n \<noteq> 0 \<Longrightarrow> 2 ^ ctz_nat n dvd n \<and> \<not> 2 ^ Suc (ctz_nat n) dvd n"
proof (induction n rule: ctz_nat.induct)
  case (1 n)
  show ?case
  proof (cases "odd n")
    case True
    then show ?thesis by (simp add: ctz_nat.simps)
  next
    case False
    then obtain m where m: "n = 2 * m" by (auto elim: evenE)
    with 1(2) have m0: "m \<noteq> 0" by auto
    have c: "ctz_nat n = Suc (ctz_nat m)" using False 1(2) m by (simp add: ctz_nat.simps)
    have IH: "2 ^ ctz_nat m dvd m \<and> \<not> 2 ^ Suc (ctz_nat m) dvd m"
      using 1(1) False 1(2) m m0 by auto
    then show ?thesis using c m by simp
  qed
qed


lemma host_int_small: "- (2 ^ 31) \<le> v \<Longrightarrow> v < 2 ^ 31 \<Longrightarrow> host_int v = v"
  by (simp add: host_int_def sint_sbintrunc' signed_take_bit_int_eq_self)

lemma sint64_small: "- (2 ^ 63) \<le> v \<Longrightarrow> v < 2 ^ 63 \<Longrightarrow> sint (word_of_int v :: 64 word) = v"
  by (simp add: sint_sbintrunc' signed_take_bit_int_eq_self)

lemma wi_to_int_range:
  assumes "wi_precision x \<le> 32" "wi_val x < 2 ^ wi_precision x"
  shows "- (2 ^ 31) \<le> wi_to_int x \<and> wi_to_int x < 2 ^ 31"
proof (cases "wi_precision x")
  case 0
  with assms(2) show ?thesis by (simp add: wi_to_int_def)
next
  case (Suc k)
  have k: "k \<le> 31" using assms(1) Suc by simp
  then have pk: "(2::int) ^ k \<le> 2 ^ 31" by (intro power_increasing) auto
  have "int (wi_val x) < int (2 ^ wi_precision x)"
    using assms(2) by (simp only: of_nat_less_iff)
  then have v: "int (wi_val x) < 2 * 2 ^ k" using Suc by simp
  show ?thesis
  proof (cases "wi_val x \<ge> 2 ^ k")
    case True
    then have "int (2 ^ k) \<le> int (wi_val x)" by (simp only: of_nat_le_iff)
    then have lo: "(2::int) ^ k \<le> int (wi_val x)" by simp
    have e: "wi_to_int x = int (wi_val x) - 2 * 2 ^ k"
      using True Suc by (simp add: wi_to_int_def)
    show ?thesis unfolding e using lo v pk by linarith
  next
    case False
    then have "int (wi_val x) < int (2 ^ k)" by (simp only: of_nat_less_iff not_le)
    then have hi: "int (wi_val x) < 2 ^ k" by simp
    have e: "wi_to_int x = int (wi_val x)"
      using False Suc by (simp add: wi_to_int_def)
    show ?thesis unfolding e using hi pk by linarith
  qed
qed

lemma second_operand_returned:
  assumes "wi_precision x \<le> 32" "wi_val x < 2 ^ wi_precision x"
  shows "host_int (wi_to_shwi x) = wi_to_int x"
proof -
  from wi_to_int_range [OF assms] have r: "- (2 ^ 31) \<le> wi_to_int x" "wi_to_int x < 2 ^ 31"
    by auto
  then have "wi_to_shwi x = wi_to_int x"
    unfolding wi_to_shwi_def by (intro sint64_small) auto
  then show ?thesis using r by (simp add: host_int_small)
qed

lemma wi_clz_reference:
  assumes "wi_val x \<noteq> 0" "wi_val x < 2 ^ wi_precision x"
  shows "wi_clz x < wi_precision x
         \<and> 2 ^ (wi_precision x - wi_clz x - 1) \<le> wi_val x
         \<and> wi_val x < 2 ^ (wi_precision x - wi_clz x)"
proof -
  from bitlen_bounds [OF assms(1)] have b: "2 ^ (bitlen (wi_val x) - 1) \<le> wi_val x"
    "wi_val x < 2 ^ bitlen (wi_val x)" "bitlen (wi_val x) > 0" by auto
  from bitlen_le [OF assms(2)] have le: "bitlen (wi_val x) \<le> wi_precision x" .
  then have e: "wi_precision x - wi_clz x = bitlen (wi_val x)"
    by (simp add: wi_clz_def)
  show ?thesis using b le e by (simp add: wi_clz_def)
qed

lemma wi_ctz_reference:
  assumes "wi_val x \<noteq> 0" "wi_val x < 2 ^ wi_precision x"
  shows "wi_ctz x < wi_precision x
         \<and> 2 ^ wi_ctz x dvd wi_val x
         \<and> \<not> 2 ^ Suc (wi_ctz x) dvd wi_val x"
proof -
  from ctz_nat_dvd [OF assms(1)] have d: "2 ^ ctz_nat (wi_val x) dvd wi_val x"
    "\<not> 2 ^ Suc (ctz_nat (wi_val x)) dvd wi_val x" by auto
  from d(1) assms(1) have "2 ^ ctz_nat (wi_val x) \<le> wi_val x" by (auto intro: dvd_imp_le)
  with assms(2) have "(2::nat) ^ ctz_nat (wi_val x) < 2 ^ wi_precision x" by linarith
  then have "ctz_nat (wi_val x) < wi_precision x" by (simp add: power_strict_increasing_iff)
  then show ?thesis using d assms(1) by (simp add: wi_ctz_def)
qed

text \<open>
  C6. clz and ctz of an integer constant always fold. On a nonzero argument the result is
  the count of leading (trailing) zero bits, which for an argument of its width satisfies
  the reference bit definition: the bits above (below) the counted position are zero and
  the next bit is one. On a zero argument the two-operand form returns its second operand
  (a C \<^verbatim>\<open>int\<close>, returned unchanged when it is an integer constant of at most 32 bits);
  the one-operand form returns the bit width for a \<^verbatim>\<open>_BitInt\<close> type, else the target's
  value at zero when the target defines one, else the bit width of the operand type. The
  count is stored as a constant of the result width.
\<close>

theorem clz_ctz_always_fold:
  "fold_const_call_ss_wide tg CFN_CLZ arg precision arg_type =
     Some (wi_shwi
       (if wi_val arg \<noteq> 0 then int (wi_clz arg)
        else case arg_type of
               BITINT_TYPE p u \<Rightarrow> int p
             | _ \<Rightarrow> (case CLZ_DEFINED_VALUE_AT_ZERO tg arg_type of
                       Some v \<Rightarrow> v
                     | None \<Rightarrow> int (TYPE_PRECISION arg_type))) precision)
   \<and> fold_const_call_ss_wide tg CFN_CTZ arg precision arg_type =
     Some (wi_shwi
       (if wi_val arg \<noteq> 0 then int (wi_ctz arg)
        else case arg_type of
               BITINT_TYPE p u \<Rightarrow> int p
             | _ \<Rightarrow> (case CTZ_DEFINED_VALUE_AT_ZERO tg arg_type of
                       Some v \<Rightarrow> v
                     | None \<Rightarrow> int (TYPE_PRECISION arg_type))) precision)
   \<and> fold_const_call_sss_wide CFN_CLZ arg arg1 precision arg_type =
     Some (wi_shwi (if wi_val arg \<noteq> 0 then int (wi_clz arg) else host_int (wi_to_shwi arg1))
       precision)
   \<and> fold_const_call_sss_wide CFN_CTZ arg arg1 precision arg_type =
     Some (wi_shwi (if wi_val arg \<noteq> 0 then int (wi_ctz arg) else host_int (wi_to_shwi arg1))
       precision)
   \<and> (wi_precision arg1 \<le> 32 \<and> wi_val arg1 < 2 ^ wi_precision arg1 \<longrightarrow>
        host_int (wi_to_shwi arg1) = wi_to_int arg1)
   \<and> (wi_val arg \<noteq> 0 \<and> wi_val arg < 2 ^ wi_precision arg \<longrightarrow>
        wi_clz arg < wi_precision arg
        \<and> 2 ^ (wi_precision arg - wi_clz arg - 1) \<le> wi_val arg
        \<and> wi_val arg < 2 ^ (wi_precision arg - wi_clz arg)
        \<and> wi_ctz arg < wi_precision arg
        \<and> 2 ^ wi_ctz arg dvd wi_val arg
        \<and> \<not> 2 ^ Suc (wi_ctz arg) dvd wi_val arg)"
proof (intro conjI impI)
  show "fold_const_call_ss_wide tg CFN_CLZ arg precision arg_type =
     Some (wi_shwi
       (if wi_val arg \<noteq> 0 then int (wi_clz arg)
        else case arg_type of
               BITINT_TYPE p u \<Rightarrow> int p
             | _ \<Rightarrow> (case CLZ_DEFINED_VALUE_AT_ZERO tg arg_type of
                       Some v \<Rightarrow> v
                     | None \<Rightarrow> int (TYPE_PRECISION arg_type))) precision)"
    by (cases arg_type) (simp_all split: option.splits)
  show "fold_const_call_ss_wide tg CFN_CTZ arg precision arg_type =
     Some (wi_shwi
       (if wi_val arg \<noteq> 0 then int (wi_ctz arg)
        else case arg_type of
               BITINT_TYPE p u \<Rightarrow> int p
             | _ \<Rightarrow> (case CTZ_DEFINED_VALUE_AT_ZERO tg arg_type of
                       Some v \<Rightarrow> v
                     | None \<Rightarrow> int (TYPE_PRECISION arg_type))) precision)"
    by (cases arg_type) (simp_all split: option.splits)
next
  assume "wi_precision arg1 \<le> 32 \<and> wi_val arg1 < 2 ^ wi_precision arg1"
  then show "host_int (wi_to_shwi arg1) = wi_to_int arg1"
    by (simp add: second_operand_returned)
next
  assume a: "wi_val arg \<noteq> 0 \<and> wi_val arg < 2 ^ wi_precision arg"
  then show "wi_clz arg < wi_precision arg"
    "2 ^ (wi_precision arg - wi_clz arg - 1) \<le> wi_val arg"
    "wi_val arg < 2 ^ (wi_precision arg - wi_clz arg)"
    using wi_clz_reference [of arg] by auto
  from a show "wi_ctz arg < wi_precision arg" "2 ^ wi_ctz arg dvd wi_val arg"
    "\<not> 2 ^ Suc (wi_ctz arg) dvd wi_val arg"
    using wi_ctz_reference [of arg] by auto
qed simp_all

lemma bitlen_40: "bitlen 40 = 6"
  by code_simp

lemma ctz_nat_40: "ctz_nat 40 = 3"
  by code_simp

theorem clz_ctz_always_fold_witness:
  "fold_const_call_ss_wide sample_target CFN_CLZ \<lparr>wi_precision = 32, wi_val = 40\<rparr> 32
      (INTEGER_TYPE 32 True) = Some \<lparr>wi_precision = 32, wi_val = 26\<rparr>
   \<and> fold_const_call_ss_wide sample_target CFN_CTZ \<lparr>wi_precision = 32, wi_val = 40\<rparr> 32
      (INTEGER_TYPE 32 True) = Some \<lparr>wi_precision = 32, wi_val = 3\<rparr>
   \<and> fold_const_call_ss_wide sample_target CFN_CLZ \<lparr>wi_precision = 32, wi_val = 0\<rparr> 32
      (INTEGER_TYPE 32 True) = Some \<lparr>wi_precision = 32, wi_val = 32\<rparr>
   \<and> fold_const_call_ss_wide sample_target CFN_CTZ \<lparr>wi_precision = 32, wi_val = 0\<rparr> 32
      (INTEGER_TYPE 32 True) = Some \<lparr>wi_precision = 32, wi_val = 32\<rparr>
   \<and> fold_const_call_ss_wide sample_target CFN_CLZ \<lparr>wi_precision = 24, wi_val = 0\<rparr> 32
      (BITINT_TYPE 24 True) = Some \<lparr>wi_precision = 32, wi_val = 24\<rparr>
   \<and> fold_const_call_sss_wide CFN_CLZ \<lparr>wi_precision = 32, wi_val = 0\<rparr>
      \<lparr>wi_precision = 32, wi_val = 7\<rparr> 32 (INTEGER_TYPE 32 True)
      = Some \<lparr>wi_precision = 32, wi_val = 7\<rparr>
   \<and> host_int (wi_to_shwi \<lparr>wi_precision = 32, wi_val = 7\<rparr>) = 7
   \<and> wi_clz \<lparr>wi_precision = 32, wi_val = 40\<rparr> = 26
   \<and> wi_ctz \<lparr>wi_precision = 32, wi_val = 40\<rparr> = 3"
  using clz_ctz_always_fold [of sample_target "\<lparr>wi_precision = 32, wi_val = 40\<rparr>" 32
      "INTEGER_TYPE 32 True" "\<lparr>wi_precision = 32, wi_val = 7\<rparr>"]
    clz_ctz_always_fold [of sample_target "\<lparr>wi_precision = 32, wi_val = 0\<rparr>" 32
      "INTEGER_TYPE 32 True" "\<lparr>wi_precision = 32, wi_val = 7\<rparr>"]
    clz_ctz_always_fold [of sample_target "\<lparr>wi_precision = 24, wi_val = 0\<rparr>" 32
      "BITINT_TYPE 24 True" "\<lparr>wi_precision = 32, wi_val = 7\<rparr>"]
  by (simp add: sample_target_def wi_shwi_def wi_clz_def wi_ctz_def wi_to_int_def bitlen_40
      ctz_nat_40)

lemma wrap_value_cong:
  "x mod 2 ^ TYPE_PRECISION ty = y mod 2 ^ TYPE_PRECISION ty \<Longrightarrow> wrap_value ty x = wrap_value ty y"
  unfolding wrap_value_def
  by (metis mod_add_left_eq)

lemma wrap_value_mod:
  "wrap_value ty x mod 2 ^ TYPE_PRECISION ty = x mod 2 ^ TYPE_PRECISION ty"
  unfolding wrap_value_def
  by (simp add: mod_diff_left_eq)

lemma wrap_value_arith:
  "wrap_value ty (wrap_value ty x + wrap_value ty y) = wrap_value ty (x + y)"
  "wrap_value ty (wrap_value ty x - wrap_value ty y) = wrap_value ty (x - y)"
  "wrap_value ty (wrap_value ty x * wrap_value ty y) = wrap_value ty (x * y)"
  by (intro wrap_value_cong mod_add_cong mod_diff_cong mod_mult_cong wrap_value_mod)+

lemma wrap_value_fits:
  assumes "0 < TYPE_PRECISION ty" "fits_type ty v"
  shows "wrap_value ty v = v"
proof (cases "TYPE_UNSIGNED ty")
  case True
  with assms(2) show ?thesis by (simp add: fits_type_def wrap_value_def)
next
  case False
  from assms(1) obtain k where k: "TYPE_PRECISION ty = Suc k"
    by (cases "TYPE_PRECISION ty") auto
  from assms(2) False k have r: "0 \<le> v + 2 ^ k" "v + 2 ^ k < 2 * 2 ^ k"
    by (auto simp: fits_type_def)
  then have "(v + 2 ^ k) mod (2 * 2 ^ k) = v + 2 ^ k" by (intro mod_pos_pos_trivial)
  then show ?thesis using False k by (simp add: wrap_value_def)
qed

lemma complex_type_neq: "t \<noteq> COMPLEX_TYPE t"
  by (induction t) auto

lemma integer_cst_p_iff: "integer_cst_p t = (\<exists>ty v. t = INTEGER_CST ty v False)"
  by (cases t) auto

lemma arith_overflow_fold:
  assumes v: "arith_op (overflow_subcode fn) x y = Some v"
  shows "fold_const_call_arith_overflow fn (COMPLEX_TYPE itype)
           (INTEGER_CST t0 x False) (INTEGER_CST t1 y False) = Some (overflow_pair itype v)"
    and "(\<forall>t. itype \<noteq> COMPLEX_TYPE t) \<Longrightarrow>
           fold_const_call_arith_overflow fn itype
             (INTEGER_CST t0 x False) (INTEGER_CST t1 y False) = trap_result itype v"
proof -
  define arg0 where "arg0 = INTEGER_CST t0 x False"
  define arg1 where "arg1 = INTEGER_CST t1 y False"
  have p: "integer_cst_p arg0" "integer_cst_p arg1" by (simp_all add: arg0_def arg1_def)
  have "\<exists>v'. arith_op (overflow_subcode fn) (wrap_value itype x) (wrap_value itype y) = Some v'
             \<and> wrap_value itype v' = wrap_value itype v"
    using v by (cases fn) (auto simp: wrap_value_arith)
  then obtain ovf where r: "int_const_binop (overflow_subcode fn) (fold_convert itype arg0)
      (fold_convert itype arg1) = Some (INTEGER_CST itype (wrap_value itype v) ovf)"
    by (auto simp: arg0_def arg1_def)
  have o: "arith_overflowed_p (overflow_subcode fn) itype arg0 arg1 = (\<not> fits_type itype v)"
    by (simp add: arg0_def arg1_def v)
  have c: "itype \<noteq> COMPLEX_TYPE itype" by (rule complex_type_neq)
  show "fold_const_call_arith_overflow fn (COMPLEX_TYPE itype)
           (INTEGER_CST t0 x False) (INTEGER_CST t1 y False) = Some (overflow_pair itype v)"
    using c p unfolding arg0_def [symmetric] arg1_def [symmetric]
    by (simp add: fold_const_call_arith_overflow_def r o build_complex_def build_int_cst_def
        overflow_pair_def Let_def)
  show "fold_const_call_arith_overflow fn itype
             (INTEGER_CST t0 x False) (INTEGER_CST t1 y False) = trap_result itype v"
    if "\<forall>t. itype \<noteq> COMPLEX_TYPE t"
  proof -
    have i: "(case itype of COMPLEX_TYPE t \<Rightarrow> t | _ \<Rightarrow> itype) = itype"
      using that by (cases itype) auto
    show ?thesis
      using p unfolding arg0_def [symmetric] arg1_def [symmetric]
      by (simp add: fold_const_call_arith_overflow_def i r o trap_result_def Let_def)
  qed
qed

text \<open>
  C4. For every pair of integer constant operands \<open>x\<close> and \<open>y\<close> (integer constants
  without an overflow mark) the overflow-checked family never fails with a complex result
  type: ADD_OVERFLOW folds to the pair for the exact sum \<open>x + y\<close>, SUB_OVERFLOW to the
  pair for the exact difference \<open>x - y\<close>, MUL_OVERFLOW to the pair for the exact product
  \<open>x * y\<close>, the pair being the exact result truncated to the result width and a flag
  that is 0 when the exact result fits that width and 1 when it does not. With a scalar
  result type the trap-oriented variants UBSAN_CHECK_ADD, UBSAN_CHECK_SUB and
  UBSAN_CHECK_MUL fold to the sum, difference and product when it fits and fail to fold
  when it does not. The code tells the two families apart by the result type only, so
  each equation holds of both builtins of an operation. A result that fits is the exact
  result, and the flag is the constant 1 or 0 in every type but the 1-bit signed one.
\<close>

theorem overflow_checked_arith:
  "fold_const_call_arith_overflow CFN_ADD_OVERFLOW (COMPLEX_TYPE itype)
      (INTEGER_CST t0 x False) (INTEGER_CST t1 y False) = Some (overflow_pair itype (x + y))
   \<and> fold_const_call_arith_overflow CFN_SUB_OVERFLOW (COMPLEX_TYPE itype)
      (INTEGER_CST t0 x False) (INTEGER_CST t1 y False) = Some (overflow_pair itype (x - y))
   \<and> fold_const_call_arith_overflow CFN_MUL_OVERFLOW (COMPLEX_TYPE itype)
      (INTEGER_CST t0 x False) (INTEGER_CST t1 y False) = Some (overflow_pair itype (x * y))
   \<and> fold_const_call_arith_overflow CFN_UBSAN_CHECK_ADD (COMPLEX_TYPE itype)
      (INTEGER_CST t0 x False) (INTEGER_CST t1 y False) = Some (overflow_pair itype (x + y))
   \<and> fold_const_call_arith_overflow CFN_UBSAN_CHECK_SUB (COMPLEX_TYPE itype)
      (INTEGER_CST t0 x False) (INTEGER_CST t1 y False) = Some (overflow_pair itype (x - y))
   \<and> fold_const_call_arith_overflow CFN_UBSAN_CHECK_MUL (COMPLEX_TYPE itype)
      (INTEGER_CST t0 x False) (INTEGER_CST t1 y False) = Some (overflow_pair itype (x * y))
   \<and> ((\<forall>t. itype \<noteq> COMPLEX_TYPE t) \<longrightarrow>
        fold_const_call_arith_overflow CFN_UBSAN_CHECK_ADD itype
          (INTEGER_CST t0 x False) (INTEGER_CST t1 y False) = trap_result itype (x + y)
        \<and> fold_const_call_arith_overflow CFN_UBSAN_CHECK_SUB itype
          (INTEGER_CST t0 x False) (INTEGER_CST t1 y False) = trap_result itype (x - y)
        \<and> fold_const_call_arith_overflow CFN_UBSAN_CHECK_MUL itype
          (INTEGER_CST t0 x False) (INTEGER_CST t1 y False) = trap_result itype (x * y)
        \<and> fold_const_call_arith_overflow CFN_ADD_OVERFLOW itype
          (INTEGER_CST t0 x False) (INTEGER_CST t1 y False) = trap_result itype (x + y)
        \<and> fold_const_call_arith_overflow CFN_SUB_OVERFLOW itype
          (INTEGER_CST t0 x False) (INTEGER_CST t1 y False) = trap_result itype (x - y)
        \<and> fold_const_call_arith_overflow CFN_MUL_OVERFLOW itype
          (INTEGER_CST t0 x False) (INTEGER_CST t1 y False) = trap_result itype (x * y))
   \<and> (0 < TYPE_PRECISION itype \<and> fits_type itype v \<longrightarrow> wrap_value itype v = v)
   \<and> (TYPE_UNSIGNED itype \<and> 0 < TYPE_PRECISION itype \<or> 1 < TYPE_PRECISION itype \<longrightarrow>
        wrap_value itype 0 = 0 \<and> wrap_value itype 1 = 1)
   \<and> (integer_cst_p arg \<longrightarrow> (\<exists>ty c. arg = INTEGER_CST ty c False))"
proof -
  have flag: "wrap_value itype 0 = 0 \<and> wrap_value itype 1 = 1"
    if "TYPE_UNSIGNED itype \<and> 0 < TYPE_PRECISION itype \<or> 1 < TYPE_PRECISION itype"
  proof -
    from that have pos: "0 < TYPE_PRECISION itype" by auto
    have "fits_type itype 0" by (simp add: fits_type_def)
    moreover have "fits_type itype 1"
    proof (cases "TYPE_UNSIGNED itype")
      case True
      with pos show ?thesis by (simp add: fits_type_def)
    next
      case False
      with that obtain k where k: "TYPE_PRECISION itype = Suc (Suc k)"
        by (cases "TYPE_PRECISION itype"; cases "TYPE_PRECISION itype - 1") auto
      have "(1::int) \<le> 2 ^ k" by simp
      then have "- 1 \<le> 2 * (2::int) ^ k" "1 < 2 * (2::int) ^ k" by linarith+
      with False k show ?thesis by (simp add: fits_type_def)
    qed
    ultimately show ?thesis using pos by (simp add: wrap_value_fits)
  qed
  show ?thesis
    using flag wrap_value_fits [of itype v] integer_cst_p_iff [of arg]
    by (simp add: arith_overflow_fold)
qed

theorem overflow_checked_arith_witness:
  "fold_const_call_arith_overflow CFN_ADD_OVERFLOW (COMPLEX_TYPE uint8_type)
      (INTEGER_CST uint8_type 200 False) (INTEGER_CST uint8_type 100 False)
     = Some (COMPLEX_CST (COMPLEX_TYPE uint8_type) (INTEGER_CST uint8_type 44 False)
               (INTEGER_CST uint8_type 1 False))
   \<and> fold_const_call_arith_overflow CFN_ADD_OVERFLOW (COMPLEX_TYPE uint8_type)
      (INTEGER_CST uint8_type 10 False) (INTEGER_CST uint8_type 20 False)
     = Some (COMPLEX_CST (COMPLEX_TYPE uint8_type) (INTEGER_CST uint8_type 30 False)
               (INTEGER_CST uint8_type 0 False))
   \<and> fold_const_call_arith_overflow CFN_SUB_OVERFLOW (COMPLEX_TYPE uint8_type)
      (INTEGER_CST uint8_type 10 False) (INTEGER_CST uint8_type 20 False)
     = Some (COMPLEX_CST (COMPLEX_TYPE uint8_type) (INTEGER_CST uint8_type 246 False)
               (INTEGER_CST uint8_type 1 False))
   \<and> fold_const_call_arith_overflow CFN_MUL_OVERFLOW (COMPLEX_TYPE uint8_type)
      (INTEGER_CST uint8_type 20 False) (INTEGER_CST uint8_type 13 False)
     = Some (COMPLEX_CST (COMPLEX_TYPE uint8_type) (INTEGER_CST uint8_type 4 False)
               (INTEGER_CST uint8_type 1 False))
   \<and> fold_const_call_arith_overflow CFN_ADD_OVERFLOW (COMPLEX_TYPE int8_type)
      (INTEGER_CST int8_type 100 False) (INTEGER_CST int8_type 100 False)
     = Some (COMPLEX_CST (COMPLEX_TYPE int8_type) (INTEGER_CST int8_type (- 56) False)
               (INTEGER_CST int8_type 1 False))
   \<and> fold_const_call_arith_overflow CFN_SUB_OVERFLOW (COMPLEX_TYPE int8_type)
      (INTEGER_CST int8_type (- 100) False) (INTEGER_CST int8_type 100 False)
     = Some (COMPLEX_CST (COMPLEX_TYPE int8_type) (INTEGER_CST int8_type 56 False)
               (INTEGER_CST int8_type 1 False))
   \<and> fold_const_call_arith_overflow CFN_MUL_OVERFLOW (COMPLEX_TYPE int8_type)
      (INTEGER_CST int8_type 16 False) (INTEGER_CST int8_type (- 8) False)
     = Some (COMPLEX_CST (COMPLEX_TYPE int8_type) (INTEGER_CST int8_type (- 128) False)
               (INTEGER_CST int8_type 0 False))
   \<and> fold_const_call_arith_overflow CFN_UBSAN_CHECK_ADD uint8_type
      (INTEGER_CST uint8_type 200 False) (INTEGER_CST uint8_type 100 False) = None
   \<and> fold_const_call_arith_overflow CFN_UBSAN_CHECK_ADD uint8_type
      (INTEGER_CST uint8_type 10 False) (INTEGER_CST uint8_type 20 False)
     = Some (INTEGER_CST uint8_type 30 False)
   \<and> fold_const_call_arith_overflow CFN_UBSAN_CHECK_SUB uint8_type
      (INTEGER_CST uint8_type 10 False) (INTEGER_CST uint8_type 20 False) = None
   \<and> fold_const_call_arith_overflow CFN_UBSAN_CHECK_SUB int8_type
      (INTEGER_CST int8_type 10 False) (INTEGER_CST int8_type 20 False)
     = Some (INTEGER_CST int8_type (- 10) False)
   \<and> fold_const_call_arith_overflow CFN_UBSAN_CHECK_MUL int8_type
      (INTEGER_CST int8_type 16 False) (INTEGER_CST int8_type 8 False) = None
   \<and> fold_const_call_arith_overflow CFN_UBSAN_CHECK_MUL int8_type
      (INTEGER_CST int8_type 5 False) (INTEGER_CST int8_type (- 5) False)
     = Some (INTEGER_CST int8_type (- 25) False)"
  using overflow_checked_arith [of uint8_type uint8_type 200 uint8_type 100 0
      "INTEGER_CST uint8_type 200 False"]
    overflow_checked_arith [of uint8_type uint8_type 10 uint8_type 20 0
      "INTEGER_CST uint8_type 10 False"]
    overflow_checked_arith [of uint8_type uint8_type 20 uint8_type 13 0
      "INTEGER_CST uint8_type 20 False"]
    overflow_checked_arith [of int8_type int8_type 100 int8_type 100 0
      "INTEGER_CST int8_type 100 False"]
    overflow_checked_arith [of int8_type int8_type "- 100" int8_type 100 0
      "INTEGER_CST int8_type 100 False"]
    overflow_checked_arith [of int8_type int8_type 16 int8_type "- 8" 0
      "INTEGER_CST int8_type 16 False"]
    overflow_checked_arith [of int8_type int8_type 10 int8_type 20 0
      "INTEGER_CST int8_type 10 False"]
    overflow_checked_arith [of int8_type int8_type 16 int8_type 8 0
      "INTEGER_CST int8_type 16 False"]
    overflow_checked_arith [of int8_type int8_type 5 int8_type "- 5" 0
      "INTEGER_CST int8_type 5 False"]
  by (simp add: uint8_type_def int8_type_def fits_type_def wrap_value_def overflow_pair_def
      trap_result_def)

lemma side_effects_no_content:
  "TREE_SIDE_EFFECTS t \<Longrightarrow> c_getstr t = None \<and> getbyterep t = None"
  by (cases t) auto

lemma build_int_cst_0: "0 < TYPE_PRECISION ty \<Longrightarrow> build_int_cst ty 0 = INTEGER_CST ty 0 False"
  by (simp add: build_int_cst_def wrap_value_fits fits_type_def)

text \<open>
  C8. With a constant bound of zero (a size_t constant 0), strncmp, strncasecmp, memcmp
  or bcmp, and memchr fold to the integer constant 0 of the result type whatever the
  operands hold, provided neither operand has a side effect; if either operand has a side
  effect the call is not folded (the shortcut is skipped, and an operand with a side
  effect has no statically known content for the general path).
\<close>

theorem zero_bound_folds_to_zero:
  "size_t_cst_p tg arg2 = Some 0 \<longrightarrow>
     (\<not> TREE_SIDE_EFFECTS arg0 \<and> \<not> TREE_SIDE_EFFECTS arg1 \<longrightarrow>
        fold_const_call_bounded tg fn type arg0 arg1 arg2 = Some (build_int_cst type 0)
        \<and> (0 < TYPE_PRECISION type \<longrightarrow> build_int_cst type 0 = INTEGER_CST type 0 False))
     \<and> (TREE_SIDE_EFFECTS arg0 \<or> TREE_SIDE_EFFECTS arg1 \<longrightarrow>
        fold_const_call_bounded tg fn type arg0 arg1 arg2 = None)"
proof (intro impI conjI)
  assume s: "size_t_cst_p tg arg2 = Some 0"
  {
    assume "\<not> TREE_SIDE_EFFECTS arg0 \<and> \<not> TREE_SIDE_EFFECTS arg1"
    with s show "fold_const_call_bounded tg fn type arg0 arg1 arg2 = Some (build_int_cst type 0)"
      by (cases fn) simp_all
  }
  {
    assume "0 < TYPE_PRECISION type"
    then show "build_int_cst type 0 = INTEGER_CST type 0 False"
      by (rule build_int_cst_0)
  }
  assume se: "TREE_SIDE_EFFECTS arg0 \<or> TREE_SIDE_EFFECTS arg1"
  have t: "target_char_cst_p arg1 = None" if "TREE_SIDE_EFFECTS arg1"
    using that by (cases arg1) (auto simp: target_char_cst_p_def)
  from se show "fold_const_call_bounded tg fn type arg0 arg1 arg2 = None"
    using s side_effects_no_content [of arg0] side_effects_no_content [of arg1] t
    by (cases fn) (auto split: option.splits)
qed

theorem zero_bound_folds_to_zero_witness:
  "size_t_cst_p sample_target sample_size_zero = Some 0
   \<and> fold_const_call_bounded sample_target CFN_BUILT_IN_STRNCMP int_type_node
        (BYTE_LITERAL [97, 98, 0]) (BYTE_LITERAL [120, 121, 0]) sample_size_zero
      = Some (INTEGER_CST int_type_node 0 False)
   \<and> fold_const_call_bounded sample_target CFN_BUILT_IN_MEMCMP int_type_node
        (BYTE_LITERAL [97, 98]) (BYTE_LITERAL [120]) sample_size_zero
      = Some (INTEGER_CST int_type_node 0 False)
   \<and> fold_const_call_bounded sample_target CFN_BUILT_IN_MEMCHR char_ptr_type
        (BYTE_LITERAL [97, 98]) (INTEGER_CST int_type_node 98 False) sample_size_zero
      = Some (INTEGER_CST char_ptr_type 0 False)
   \<and> fold_const_call_bounded sample_target CFN_BUILT_IN_STRNCMP int_type_node
        (EXPR char_ptr_type True) (BYTE_LITERAL [120, 121, 0]) sample_size_zero = None
   \<and> fold_const_call_bounded sample_target CFN_BUILT_IN_MEMCHR char_ptr_type
        (BYTE_LITERAL [97, 98]) (EXPR int_type_node True) sample_size_zero = None"
proof -
  have z: "size_t_cst_p sample_target sample_size_zero = Some 0"
    by (simp add: size_t_cst_p_def sample_target_def sample_size_zero_def types_compatible_p_def)
  show ?thesis
    using z
      zero_bound_folds_to_zero [of sample_target sample_size_zero "BYTE_LITERAL [97, 98, 0]"
        "BYTE_LITERAL [120, 121, 0]" CFN_BUILT_IN_STRNCMP int_type_node]
      zero_bound_folds_to_zero [of sample_target sample_size_zero "BYTE_LITERAL [97, 98]"
        "BYTE_LITERAL [120]" CFN_BUILT_IN_MEMCMP int_type_node]
      zero_bound_folds_to_zero [of sample_target sample_size_zero "BYTE_LITERAL [97, 98]"
        "INTEGER_CST int_type_node 98 False" CFN_BUILT_IN_MEMCHR char_ptr_type]
      zero_bound_folds_to_zero [of sample_target sample_size_zero "EXPR char_ptr_type True"
        "BYTE_LITERAL [120, 121, 0]" CFN_BUILT_IN_STRNCMP int_type_node]
      zero_bound_folds_to_zero [of sample_target sample_size_zero "BYTE_LITERAL [97, 98]"
        "EXPR int_type_node True" CFN_BUILT_IN_MEMCHR char_ptr_type]
    by (simp add: int_type_node_def char_ptr_type_def)
qed

end
